theory Spec2Isabelle
  imports Complex_Main
begin

section \<open>Common vocabulary\<close>

text \<open>
  Go strings and byte slices are byte sequences: \<open>string\<close> (a \<open>char list\<close>).
  A Go \<open>error\<close> value is modelled by its message; a \<open>nil\<close> error is \<open>None\<close>.
\<close>

type_synonym bytes = string

text \<open>
  \<open>filepath.Join\<close>: the non-empty elements joined by a slash. The lexical cleaning that
  \<open>filepath.Join\<close> applies afterwards (\<open>..\<close>, doubled slashes) is not modelled.
\<close>

fun join_elems :: "string list \<Rightarrow> string" where
  "join_elems [] = []"
| "join_elems [x] = x"
| "join_elems (x # y # ys) = x @ ''/'' @ join_elems (y # ys)"

definition Join :: "string list \<Rightarrow> string" where
  "Join elems = join_elems (filter (\<lambda>e. e \<noteq> []) elems)"

text \<open>\<open>strings.Contains\<close>: the second string occurs as a contiguous run of the first.\<close>

fun has_prefix :: "string \<Rightarrow> string \<Rightarrow> bool" where
  "has_prefix s [] = True"
| "has_prefix [] (p # ps) = False"
| "has_prefix (c # cs) (p # ps) = (c = p \<and> has_prefix cs ps)"

fun Contains :: "string \<Rightarrow> string \<Rightarrow> bool" where
  "Contains [] sub = (sub = [])"
| "Contains (c # cs) sub = (has_prefix (c # cs) sub \<or> Contains cs sub)"

text \<open>The \<open>%d\<close> verb of \<open>fmt\<close>: decimal digits, a minus sign for negatives.\<close>

definition digit_char :: "nat \<Rightarrow> char" where
  "digit_char d = char_of (48 + d)"

fun show_nat :: "nat \<Rightarrow> string" where
  "show_nat n = (if n < 10 then [digit_char n] else show_nat (n div 10) @ [digit_char (n mod 10)])"

declare show_nat.simps [simp del]

definition show_int :: "int \<Rightarrow> string" where
  "show_int i = (if i < 0 then ''-'' @ show_nat (nat (- i)) else show_nat (nat i))"


section \<open>Core manager: \<open>backend/modules/core/service.go\<close>\<close>

subsection \<open>Data\<close>

record Core =
  Name :: string
  Version :: string
  LatestVersion :: string
  Installed :: bool
  Path :: string

text \<open>
  \<open>Progress\<close> is a \<open>float64\<close> in the source. It is modelled by the exact real value
  of the expression that computes it; the IEEE operations involved (conversion from
  \<open>int64\<close>, division by a positive number, multiplication by 100) round monotonically,
  so order between two progress values is the same in both.
\<close>

record DownloadProgress =
  Downloading :: bool
  Progress :: real
  Speed :: int
  Error :: string

definition zero_DownloadProgress :: DownloadProgress where
  "zero_DownloadProgress = \<lparr>Downloading = False, Progress = 0, Speed = 0, Error = []\<rparr>"

text \<open>
  The two maps of \<open>Service\<close> hold pointers; a key that is absent reads as \<open>nil\<close>
  (\<open>None\<close>). The mutex is not modelled: every operation below is one atomic step, except
  where a function is split on purpose into the states it publishes between two locks.
\<close>

record Service =
  dataDir :: string
  currentCore :: string
  cores :: "string \<rightharpoonup> Core"
  downloadProgress :: "string \<rightharpoonup> DownloadProgress"

record CoreStatus =
  CurrentCore :: string
  Cores :: "string \<rightharpoonup> Core"

record SavedCoreStatus =
  saved_CurrentCore :: string
  Versions :: "string \<rightharpoonup> string"

subsection \<open>The outside world\<close>

text \<open>
  The file system is a map from paths to contents. What the operating system, the network
  and the archive libraries answer is not decided by the program; it is a parameter
  \<open>env\<close> of the model.
\<close>

type_synonym fsys = "string \<rightharpoonup> bytes"

datatype body_end = EOF | ReadErr string

text \<open>
  A response body is the sequence of results of \<open>Body.Read\<close>: the reads that return a
  \<open>nil\<close> error, then the one read that returns \<open>io.EOF\<close> or another error (with the
  bytes it still delivered).
\<close>

record http_response =
  StatusCode :: int
  ContentLength :: int
  reads :: "bytes list"
  last_read :: bytes
  ending :: body_end

datatype http_result = GetErr string | Response http_response

text \<open>
  \<open>gzip.NewReader\<close> either rejects the header, or gives a stream: the bytes it
  decodes, and the error (if any) at which decoding stops.
\<close>

datatype gz_result = GzOpenErr string | GzStream bytes "string option"

record tar_entry =
  Typeflag :: char
  entry_Name :: string
  content :: bytes
  content_err :: "string option"

record env =
  GOOS :: string
  GOARCH :: string
  http_Get :: "string \<Rightarrow> http_result"
  create_err :: "string \<Rightarrow> string option"
  write_err :: "string \<Rightarrow> string option"
  gunzip :: "bytes \<Rightarrow> gz_result"
  untar :: "bytes \<Rightarrow> string option \<Rightarrow> tar_entry list \<times> string option"
  marshal_status :: "SavedCoreStatus \<Rightarrow> bytes"

text \<open>\<open>os.Create\<close>: fails as the environment says, else leaves an empty file.\<close>

definition os_Create :: "env \<Rightarrow> string \<Rightarrow> fsys \<Rightarrow> string + fsys" where
  "os_Create e p fs = (case create_err e p of Some msg \<Rightarrow> Inl msg | None \<Rightarrow> Inr (fs(p \<mapsto> [])))"

text \<open>\<open>os.WriteFile\<close>: fails as the environment says, else the file holds the data.\<close>

definition os_WriteFile :: "env \<Rightarrow> string \<Rightarrow> bytes \<Rightarrow> fsys \<Rightarrow> string option \<times> fsys" where
  "os_WriteFile e p d fs = (case write_err e p of Some msg \<Rightarrow> (Some msg, fs) | None \<Rightarrow> (None, fs(p \<mapsto> d)))"

definition os_Remove :: "string \<Rightarrow> fsys \<Rightarrow> fsys" where
  "os_Remove p fs = fs(p := None)"

subsection \<open>Status, switching, progress\<close>

definition GetStatus :: "Service \<Rightarrow> CoreStatus" where
  "GetStatus s = \<lparr>CurrentCore = currentCore s, Cores = cores s\<rparr>"

definition saved_of :: "Service \<Rightarrow> SavedCoreStatus" where
  "saved_of s = \<lparr>saved_CurrentCore = currentCore s,
     Versions = (\<lambda>name. case cores s name of
        None \<Rightarrow> None
      | Some core \<Rightarrow> if Installed core then Some (Version core) else None)\<rparr>"

definition saveStatus :: "env \<Rightarrow> Service \<Rightarrow> fsys \<Rightarrow> string option \<times> fsys" where
  "saveStatus e s fs =
     os_WriteFile e (Join [dataDir s, ''core_status.json'']) (marshal_status e (saved_of s)) fs"

text \<open>
  \<open>SwitchCore\<close> starts \<open>saveStatus\<close> with \<open>go\<close> and drops its result. The model
  returns the error, the new service state and whether that goroutine was started;
  \<open>run_spawned\<close> is the goroutine running to its end.
\<close>

definition SwitchCore :: "Service \<Rightarrow> string \<Rightarrow> string option \<times> Service \<times> bool" where
  "SwitchCore s coreType =
     (case cores s coreType of
        None \<Rightarrow> (Some (''unknown core type: '' @ coreType), s, False)
      | Some core \<Rightarrow>
          if \<not> Installed core then (Some (''core '' @ coreType @ '' is not installed''), s, False)
          else (None, s\<lparr>currentCore := coreType\<rparr>, True))"

definition run_spawned :: "env \<Rightarrow> Service \<Rightarrow> bool \<Rightarrow> fsys \<Rightarrow> fsys" where
  "run_spawned e s spawned fs = (if spawned then snd (saveStatus e s fs) else fs)"

text \<open>
  \<open>GetDownloadProgress\<close> takes the read lock only; it returns the service unchanged
  next to its answer.
\<close>

definition GetDownloadProgress :: "Service \<Rightarrow> string \<Rightarrow> DownloadProgress \<times> Service" where
  "GetDownloadProgress s coreType =
     (case downloadProgress s coreType of
        Some progress \<Rightarrow> (progress, s)
      | None \<Rightarrow> (zero_DownloadProgress, s))"


subsection \<open>Download and extraction\<close>

datatype 'a go_result = Ok 'a | Fail string | NilDeref

definition getCoreBinaryPath :: "env \<Rightarrow> Service \<Rightarrow> string \<Rightarrow> string" where
  "getCoreBinaryPath e s coreType =
     (let arch = GOARCH e; goos = GOOS e;
          binName = (if coreType = ''mihomo'' then ''mihomo-'' @ goos @ ''-'' @ arch
                     else if coreType = ''singbox'' then ''sing-box-'' @ goos @ ''-'' @ arch
                     else [])
      in Join [dataDir s, ''cores'', binName])"

text \<open>
  \<open>getCoreDownloadURL\<close> reads \<open>s.cores[coreType].LatestVersion\<close> before anything
  else: for a key that is not in the map this dereferences \<open>nil\<close>.
\<close>

definition getCoreDownloadURL :: "env \<Rightarrow> Service \<Rightarrow> string \<Rightarrow> string go_result" where
  "getCoreDownloadURL e s coreType =
     (case cores s coreType of
        None \<Rightarrow> NilDeref
      | Some core \<Rightarrow>
          let arch = GOARCH e; goos = GOOS e; version = LatestVersion core in
          if version = [] then Fail ''version not found, please check latest version first''
          else
            let archName = (if arch = ''amd64'' then ''amd64''
                            else if arch = ''arm64'' then ''arm64'' else arch);
                osName = (if goos = ''darwin'' then ''darwin'' else goos)
            in if coreType = ''mihomo'' then
                 Ok (''https://github.com/MetaCubeX/mihomo/releases/download/v'' @ version
                     @ ''/mihomo-'' @ osName @ ''-'' @ archName @ ''-v'' @ version @ ''.gz'')
               else if coreType = ''singbox'' then
                 Ok (''https://github.com/SagerNet/sing-box/releases/download/v'' @ version
                     @ ''/sing-box-'' @ version @ ''-'' @ osName @ ''-'' @ archName @ ''.tar.gz'')
               else Fail ''unknown core type'')"

text \<open>
  The tarball loop of \<open>extractCore\<close>: the entries that \<open>tr.Next\<close> yields, then how the
  archive ends (\<open>None\<close> is \<open>io.EOF\<close>). \<open>tar.TypeReg\<close> is the character \<open>0\<close>. The first
  regular entry whose name contains \<open>sing-box\<close> is copied over the destination, which
  \<open>os.Create\<close> has truncated first; what \<open>io.Copy\<close> returns is returned.
\<close>

fun tar_loop :: "env \<Rightarrow> string \<Rightarrow> tar_entry list \<Rightarrow> string option \<Rightarrow> fsys \<Rightarrow> string option \<times> fsys" where
  "tar_loop e destPath [] fin fs =
     (case fin of
        None \<Rightarrow> (Some ''executable not found in archive'', fs)
      | Some msg \<Rightarrow> (Some msg, fs))"
| "tar_loop e destPath (header # rest) fin fs =
     (if Typeflag header = CHR ''0'' \<and> Contains (entry_Name header) ''sing-box'' then
        (case os_Create e destPath fs of
           Inl msg \<Rightarrow> (Some msg, fs)
         | Inr fs1 \<Rightarrow> (content_err header, fs1(destPath \<mapsto> content header)))
      else tar_loop e destPath rest fin fs)"

definition extractCore :: "env \<Rightarrow> string \<Rightarrow> string \<Rightarrow> string \<Rightarrow> fsys \<Rightarrow> string option \<times> fsys" where
  "extractCore e archivePath destPath coreType fs =
     (case fs archivePath of
        None \<Rightarrow> (Some (''open '' @ archivePath @ '': no such file or directory''), fs)
      | Some file \<Rightarrow>
          (case gunzip e file of
             GzOpenErr msg \<Rightarrow> (Some (''gzip open failed: '' @ msg), fs)
           | GzStream decoded zerr \<Rightarrow>
               if coreType = ''mihomo'' then
                 (case os_Create e destPath fs of
                    Inl msg \<Rightarrow> (Some msg, fs)
                  | Inr fs1 \<Rightarrow> (zerr, fs1(destPath \<mapsto> decoded)))
               else
                 (case untar e decoded zerr of
                    (entries, fin) \<Rightarrow> tar_loop e destPath entries fin fs)))"

text \<open>\<open>written\<close> is an \<open>int64\<close>: addition wraps.\<close>

definition wrap64 :: "int \<Rightarrow> int" where
  "wrap64 x = (x + 2 ^ 63) mod 2 ^ 64 - 2 ^ 63"

text \<open>
  One turn of the streaming loop, for a read that delivered \<open>buf\<close>. The state is the
  temporary file's contents, \<open>written\<close>, the engine's progress record, and the list of
  the percent values the record has shown each time the lock was released.
\<close>

type_synonym copy_state = "bytes \<times> int \<times> DownloadProgress \<times> real list"

definition read_update :: "int \<Rightarrow> bytes \<Rightarrow> copy_state \<Rightarrow> copy_state" where
  "read_update totalSize buf st =
     (case st of (out, written, p, shown) \<Rightarrow>
        if length buf > 0 then
          let written' = wrap64 (written + int (length buf));
              p' = (if totalSize > 0
                    then p\<lparr>Progress := real_of_int written' / real_of_int totalSize * 100\<rparr>
                    else p)
          in (out @ buf, written', p', shown @ [Progress p'])
        else st)"

fun read_loop :: "int \<Rightarrow> bytes list \<Rightarrow> copy_state \<Rightarrow> copy_state" where
  "read_loop totalSize [] st = st"
| "read_loop totalSize (buf # rest) st = read_loop totalSize rest (read_update totalSize buf st)"

text \<open>
  How a call of \<open>DownloadCore\<close> ends: it returns \<open>nil\<close>, it returns an error, or it never
  returns (\<open>Deadlocked\<close>).
\<close>

datatype outcome = Success | Failed string | Deadlocked

record download_result =
  outcome :: outcome
  service :: Service
  files :: fsys
  percents :: "real list"

text \<open>
  The end of every path through \<open>DownloadCore\<close> that returns: the deferred function
  clears \<open>Downloading\<close> in the engine's progress record.
\<close>

definition leave :: "outcome \<Rightarrow> DownloadProgress \<Rightarrow> Service \<Rightarrow> string \<Rightarrow> fsys \<Rightarrow> real list \<Rightarrow> download_result" where
  "leave out p s coreType fs0 sh =
     \<lparr>outcome = out,
      service = s\<lparr>downloadProgress := (downloadProgress s)(coreType \<mapsto> p\<lparr>Downloading := False\<rparr>)\<rparr>,
      files = fs0, percents = sh\<rparr>"

text \<open>
  A \<open>nil\<close> dereference inside a locked section. \<open>getCoreDownloadURL\<close> reads
  \<open>s.cores[coreType].LatestVersion\<close> holding the read lock, and \<open>DownloadCore\<close> assigns
  \<open>s.cores[coreType].Installed\<close> holding the write lock; neither unlocks with \<open>defer\<close>. The
  panic runs the deferred function of \<open>DownloadCore\<close>, whose \<open>s.mu.Lock()\<close> then waits for
  a lock that is never released: the call does not return, and the progress record keeps
  \<open>Downloading\<close> set.
\<close>

definition stall :: "DownloadProgress \<Rightarrow> Service \<Rightarrow> string \<Rightarrow> fsys \<Rightarrow> real list \<Rightarrow> download_result" where
  "stall p s coreType fs0 sh =
     \<lparr>outcome = Deadlocked,
      service = s\<lparr>downloadProgress := (downloadProgress s)(coreType \<mapsto> p)\<rparr>,
      files = fs0, percents = sh\<rparr>"

text \<open>
  \<open>DownloadCore\<close>. Directories are not modelled (\<open>os.MkdirAll\<close>, whose error the source
  drops, has no effect here), nor are file modes (\<open>os.Chmod\<close>); writes to an open file
  succeed. \<open>p0\<close> is the fresh progress record stored under the engine's key at entry.
\<close>

definition DownloadCore :: "env \<Rightarrow> Service \<Rightarrow> fsys \<Rightarrow> string \<Rightarrow> download_result" where
  "DownloadCore e s fs0 coreType =
     (let p0 = \<lparr>Downloading = True, Progress = 0, Speed = 0, Error = []\<rparr> in
      case getCoreDownloadURL e s coreType of
        NilDeref \<Rightarrow> stall p0 s coreType fs0 [0]
      | Fail msg \<Rightarrow> leave (Failed msg) (p0\<lparr>Error := msg\<rparr>) s coreType fs0 [0]
      | Ok downloadURL \<Rightarrow>
          (case http_Get e downloadURL of
             GetErr msg \<Rightarrow> leave (Failed (''download failed: '' @ msg)) p0 s coreType fs0 [0]
           | Response resp \<Rightarrow>
               if StatusCode resp \<noteq> 200 then
                 leave (Failed (''download failed: HTTP '' @ show_int (StatusCode resp))) p0 s coreType fs0 [0]
               else
                 let tmpFile = Join [dataDir s, ''cores'', ''download.tmp''] in
                 (case os_Create e tmpFile fs0 of
                    Inl msg \<Rightarrow> leave (Failed msg) p0 s coreType fs0 [0]
                  | Inr fs1 \<Rightarrow>
                      (case read_loop (ContentLength resp) (reads resp @ [last_read resp]) ([], 0, p0, [0]) of
                         (out, written, p1, sh) \<Rightarrow>
                           let fs2 = fs1(tmpFile \<mapsto> out) in
                           (case ending resp of
                              ReadErr msg \<Rightarrow> leave (Failed msg) p1 s coreType (os_Remove tmpFile fs2) sh
                            | EOF \<Rightarrow>
                                let binPath = getCoreBinaryPath e s coreType in
                                (case extractCore e tmpFile binPath coreType fs2 of
                                   (Some msg, fs3) \<Rightarrow>
                                     leave (Failed (''extract failed: '' @ msg)) p1 s coreType (os_Remove tmpFile fs3) sh
                                 | (None, fs3) \<Rightarrow>
                                     (case cores s coreType of
                                        None \<Rightarrow> stall p1 s coreType (os_Remove tmpFile fs3) sh
                                      | Some core \<Rightarrow>
                                          let s1 = s\<lparr>cores := (cores s)(coreType \<mapsto>
                                                     core\<lparr>Installed := True, Version := LatestVersion core\<rparr>)\<rparr>;
                                              fs4 = snd (saveStatus e s1 (os_Remove tmpFile fs3))
                                          in leave Success p1 s1 coreType fs4 sh)))))))"

definition body_size :: "http_response \<Rightarrow> int" where
  "body_size resp = sum_list (map (\<lambda>buf. int (length buf)) (reads resp @ [last_read resp]))"



section \<open>sing-box configuration generator\<close>

subsection \<open>Data\<close>

text \<open>
  A decoded JSON value, as \<open>encoding/json\<close> stores one in an \<open>interface{}\<close>: numbers are
  \<open>float64\<close> (modelled by the rational they denote), objects are maps (an association
  list with one entry per key).
\<close>

datatype json = JNull | JBool bool | JNum rat | JStr string | JArr "json list" | JObj "(string \<times> json) list"

type_synonym json_object = "(string \<times> json) list"

record SingboxTLS =
  Enabled :: bool
  ServerName :: string
  Insecure :: bool
  ALPN :: "string list"

record SingboxTransport =
  transport_Type :: string
  transport_Path :: string
  Headers :: "string \<rightharpoonup> string"

record SingboxOutbound =
  Type :: string
  Tag :: string
  Server :: string
  ServerPort :: int
  Method :: string
  Password :: string
  UUID :: string
  Security :: string
  AlterId :: int
  TLS :: "SingboxTLS option"
  Transport :: "SingboxTransport option"
  Outbounds :: "string list"
  Default :: string
  URL :: string
  Interval :: string
  InterruptExist :: bool

definition zero_SingboxOutbound :: SingboxOutbound where
  "zero_SingboxOutbound =
     \<lparr>Type = [], Tag = [], Server = [], ServerPort = 0, Method = [], Password = [], UUID = [],
      Security = [], AlterId = 0, TLS = None, Transport = None, Outbounds = [], Default = [],
      URL = [], Interval = [], InterruptExist = False\<rparr>"

text \<open>
  The declaration of \<open>ProxyNode\<close> is not among the source files; these are the fields
  the generator reads from it.
\<close>

record ProxyNode =
  node_Name :: string
  node_Type :: string
  node_Server :: string
  node_Port :: int
  node_Config :: string

record ConfigGeneratorOptions =
  MixedPort :: int
  AllowLan :: bool
  EnableTUN :: bool

subsection \<open>Helpers\<close>

text \<open>
  \<open>strings.ToLower\<close> on a UTF-8 string. ASCII capitals go to their small letters. Two
  characters outside ASCII have an ASCII letter as their lower case: the Kelvin sign
  (U+212A, three bytes) goes to \<open>k\<close> and the capital I with dot above (U+0130, two bytes)
  goes to \<open>i\<close>. Every other character outside ASCII, and every byte that is not valid
  UTF-8, is turned by \<open>strings.ToLower\<close> into bytes outside ASCII again; the model keeps
  such bytes as they are. The translator only compares the result with ASCII words and
  never emits it, and those comparisons come out as in the code.
\<close>

definition lower_char :: "char \<Rightarrow> char" where
  "lower_char c = (let n = of_char c :: nat in if 65 \<le> n \<and> n \<le> 90 then char_of (n + 32) else c)"

definition kelvin_sign :: string where
  "kelvin_sign = [CHR 0xE2, CHR 0x84, CHR 0xAA]"

definition capital_I_with_dot :: string where
  "capital_I_with_dot = [CHR 0xC4, CHR 0xB0]"

fun ToLower :: "string \<Rightarrow> string" where
  "ToLower [] = []"
| "ToLower (c # cs) =
     (if has_prefix (c # cs) kelvin_sign then CHR ''k'' # ToLower (drop 2 cs)
      else if has_prefix (c # cs) capital_I_with_dot then CHR ''i'' # ToLower (drop 1 cs)
      else lower_char c # ToLower cs)"

declare ToLower.simps [simp del]

text \<open>The type assertions \<open>v.(string)\<close>, \<open>v.(bool)\<close>, \<open>v.(float64)\<close> on a map entry.\<close>

definition assert_string :: "json option \<Rightarrow> string \<times> bool" where
  "assert_string v = (case v of Some (JStr x) \<Rightarrow> (x, True) | _ \<Rightarrow> ([], False))"

definition assert_bool :: "json option \<Rightarrow> bool \<times> bool" where
  "assert_bool v = (case v of Some (JBool b) \<Rightarrow> (b, True) | _ \<Rightarrow> (False, False))"

definition assert_float64 :: "json option \<Rightarrow> rat \<times> bool" where
  "assert_float64 v = (case v of Some (JNum r) \<Rightarrow> (r, True) | _ \<Rightarrow> (0, False))"

definition assert_object :: "json option \<Rightarrow> json_object \<times> bool" where
  "assert_object v = (case v of Some (JObj m) \<Rightarrow> (m, True) | _ \<Rightarrow> ([], False))"

text \<open>
  \<open>int(x)\<close> of a \<open>float64\<close>: the fraction is dropped, towards zero. The result is a
  64-bit integer; for a value outside its range the conversion is left to the platform, and
  on amd64 it gives the smallest \<open>int64\<close>.
\<close>

definition go_int :: "rat \<Rightarrow> int" where
  "go_int r =
     (let t = (if r < 0 then \<lceil>r\<rceil> else \<lfloor>r\<rfloor>)
      in if - (2 ^ 63) \<le> t \<and> t < 2 ^ 63 then t else - (2 ^ 63))"

definition getStringOr :: "json_object \<Rightarrow> string \<Rightarrow> string \<Rightarrow> string" where
  "getStringOr m key defaultVal =
     (case assert_string (map_of m key) of (v, ok) \<Rightarrow> if ok \<and> v \<noteq> [] then v else defaultVal)"

definition getBool :: "json_object \<Rightarrow> string \<Rightarrow> bool" where
  "getBool m key = (case assert_bool (map_of m key) of (v, ok) \<Rightarrow> if ok then v else False)"

subsection \<open>Translation\<close>

definition set_port :: "json_object \<Rightarrow> SingboxOutbound \<Rightarrow> SingboxOutbound" where
  "set_port config outbound =
     (case assert_float64 (map_of config ''port'') of
        (port, ok) \<Rightarrow> if ok then outbound\<lparr>ServerPort := go_int port\<rparr> else outbound)"

definition ws_transport :: "json_object \<Rightarrow> string \<Rightarrow> SingboxTransport" where
  "ws_transport config network =
     (let t = \<lparr>transport_Type = network, transport_Path = [], Headers = Map.empty\<rparr> in
      case assert_object (map_of config ''ws-opts'') of
        (wsOpts, ok) \<Rightarrow>
          if ok then
            let t1 = t\<lparr>transport_Path := fst (assert_string (map_of wsOpts ''path''))\<rparr> in
            (case assert_object (map_of wsOpts ''headers'') of
               (headers, ok2) \<Rightarrow>
                 if ok2 then
                   t1\<lparr>Headers := (\<lambda>k. case map_of headers k of
                                         None \<Rightarrow> None
                                       | Some v \<Rightarrow> Some (fst (assert_string (Some v))))\<rparr>
                 else t1)
          else t)"

definition convertFromConfig :: "string \<Rightarrow> json_object \<Rightarrow> SingboxOutbound option" where
  "convertFromConfig name config =
     (let outbound = zero_SingboxOutbound\<lparr>Tag := name\<rparr>;
          nodeType = ToLower (fst (assert_string (map_of config ''type'')))
      in
      if nodeType = ''ss'' then
        Some ((set_port config
                 (outbound\<lparr>Type := ''shadowsocks'',
                            Server := fst (assert_string (map_of config ''server''))\<rparr>))
               \<lparr>Method := fst (assert_string (map_of config ''cipher'')),
                Password := fst (assert_string (map_of config ''password''))\<rparr>)
      else if nodeType = ''vmess'' then
        (let o1 = (set_port config
                     (outbound\<lparr>Type := ''vmess'',
                                Server := fst (assert_string (map_of config ''server''))\<rparr>))
                   \<lparr>UUID := fst (assert_string (map_of config ''uuid''))\<rparr>;
             o2 = (case assert_float64 (map_of config ''alterId'') of
                     (alterId, ok) \<Rightarrow> if ok then o1\<lparr>AlterId := go_int alterId\<rparr> else o1);
             o3 = o2\<lparr>Security := fst (assert_string (map_of config ''cipher''))\<rparr>;
             o4 = (if Security o3 = [] then o3\<lparr>Security := ''auto''\<rparr> else o3);
             o5 = (case assert_bool (map_of config ''tls'') of
                     (tls, ok) \<Rightarrow>
                       if ok \<and> tls then
                         o4\<lparr>TLS := Some \<lparr>Enabled = True,
                                          ServerName = getStringOr config ''sni'' (Server o4),
                                          Insecure = getBool config ''skip-cert-verify'',
                                          ALPN = []\<rparr>\<rparr>
                       else o4);
             o6 = (case assert_string (map_of config ''network'') of
                     (network, ok) \<Rightarrow>
                       if ok \<and> network \<noteq> ''tcp'' then
                         o5\<lparr>Transport := Some (ws_transport config network)\<rparr>
                       else o5)
         in Some o6)
      else if nodeType = ''trojan'' then
        (let o1 = (set_port config
                     (outbound\<lparr>Type := ''trojan'',
                                Server := fst (assert_string (map_of config ''server''))\<rparr>))
                   \<lparr>Password := fst (assert_string (map_of config ''password''))\<rparr>
         in Some (o1\<lparr>TLS := Some \<lparr>Enabled = True,
                                    ServerName = getStringOr config ''sni'' (Server o1),
                                    Insecure = getBool config ''skip-cert-verify'',
                                    ALPN = []\<rparr>\<rparr>))
      else if nodeType = ''vless'' then
        Some ((set_port config
                 (outbound\<lparr>Type := ''vless'',
                            Server := fst (assert_string (map_of config ''server''))\<rparr>))
               \<lparr>UUID := fst (assert_string (map_of config ''uuid''))\<rparr>)
      else None)"

text \<open>
  \<open>convertProxyNode\<close>. \<open>parse\<close> is \<open>json.Unmarshal\<close> into a
  \<open>map[string]interface{}\<close>: \<open>None\<close> when it returns an error.
\<close>

definition convertProxyNode :: "(string \<Rightarrow> json_object option) \<Rightarrow> ProxyNode \<Rightarrow> SingboxOutbound option" where
  "convertProxyNode parse node =
     (let outbound = zero_SingboxOutbound
            \<lparr>Tag := node_Name node, Server := node_Server node, ServerPort := node_Port node\<rparr>
      in
      case (if node_Config node \<noteq> [] then parse (node_Config node) else None) of
        Some config \<Rightarrow> convertFromConfig (node_Name node) config
      | None \<Rightarrow>
          let nodeType = ToLower (node_Type node) in
          if nodeType = ''ss'' \<or> nodeType = ''shadowsocks'' then Some (outbound\<lparr>Type := ''shadowsocks''\<rparr>)
          else if nodeType = ''vmess'' then Some (outbound\<lparr>Type := ''vmess''\<rparr>)
          else if nodeType = ''vless'' then Some (outbound\<lparr>Type := ''vless''\<rparr>)
          else if nodeType = ''trojan'' then Some (outbound\<lparr>Type := ''trojan''\<rparr>)
          else if nodeType = ''hysteria2'' \<or> nodeType = ''hy2'' then Some (outbound\<lparr>Type := ''hysteria2''\<rparr>)
          else if nodeType = ''socks'' \<or> nodeType = ''socks5'' then Some (outbound\<lparr>Type := ''socks''\<rparr>)
          else if nodeType = ''http'' then Some (outbound\<lparr>Type := ''http''\<rparr>)
          else None)"

text \<open>The first loop of \<open>generateOutbounds\<close>: the two slices it appends to.\<close>

fun convert_nodes :: "(string \<Rightarrow> json_object option) \<Rightarrow> ProxyNode list
    \<Rightarrow> SingboxOutbound list \<times> string list \<Rightarrow> SingboxOutbound list \<times> string list" where
  "convert_nodes parse [] acc = acc"
| "convert_nodes parse (node # rest) (outbounds, nodeNames) =
     (case convertProxyNode parse node of
        Some outbound \<Rightarrow> convert_nodes parse rest (outbounds @ [outbound], nodeNames @ [node_Name node])
      | None \<Rightarrow> convert_nodes parse rest (outbounds, nodeNames))"

definition selector_outbounds :: "string list \<Rightarrow> SingboxOutbound list" where
  "selector_outbounds nodeNames =
     (if length nodeNames > 0 then
        [zero_SingboxOutbound\<lparr>Type := ''selector'', Tag := ''proxy'',
                               Outbounds := ''auto'' # nodeNames, Default := ''auto''\<rparr>,
         zero_SingboxOutbound\<lparr>Type := ''urltest'', Tag := ''auto'', Outbounds := nodeNames,
                               URL := ''https://www.gstatic.com/generate_204'',
                               Interval := ''300s'', InterruptExist := True\<rparr>]
      else [])"

definition fixed_outbounds :: "SingboxOutbound list" where
  "fixed_outbounds =
     [zero_SingboxOutbound\<lparr>Type := ''direct'', Tag := ''direct''\<rparr>,
      zero_SingboxOutbound\<lparr>Type := ''block'', Tag := ''block''\<rparr>,
      zero_SingboxOutbound\<lparr>Type := ''dns'', Tag := ''dns-out''\<rparr>]"

definition generateOutbounds :: "(string \<Rightarrow> json_object option) \<Rightarrow> ProxyNode list
    \<Rightarrow> ConfigGeneratorOptions \<Rightarrow> SingboxOutbound list" where
  "generateOutbounds parse nodes options =
     (case convert_nodes parse nodes ([], []) of
        (outbounds, nodeNames) \<Rightarrow> outbounds @ selector_outbounds nodeNames @ fixed_outbounds)"



subsection \<open>Saving the configuration\<close>

text \<open>
  What a file-system call does, step by step, so that the states between the steps can be
  looked at. \<open>os.WriteFile\<close> opens the file with \<open>O_TRUNC\<close> and then writes the data
  (its documentation: the file is truncated before writing, and a failure in the middle can
  leave it partially written). A rename moves a file onto a path in one step.
\<close>

datatype fs_step = Truncate string | WriteData string bytes | Rename string string

fun apply_step :: "fs_step \<Rightarrow> fsys \<Rightarrow> fsys" where
  "apply_step (Truncate p) fs = fs(p \<mapsto> [])"
| "apply_step (WriteData p d) fs = fs(p \<mapsto> (case fs p of None \<Rightarrow> d | Some old \<Rightarrow> old @ d))"
| "apply_step (Rename a b) fs = (case fs a of None \<Rightarrow> fs | Some d \<Rightarrow> (fs(a := None))(b \<mapsto> d))"

fun states_after :: "fsys \<Rightarrow> fs_step list \<Rightarrow> fsys list" where
  "states_after fs [] = []"
| "states_after fs (st # sts) = apply_step st fs # states_after (apply_step st fs) sts"

definition WriteFile_steps :: "string \<Rightarrow> bytes \<Rightarrow> fs_step list" where
  "WriteFile_steps name data = [Truncate name, WriteData name data]"

definition HasSuffix :: "string \<Rightarrow> string \<Rightarrow> bool" where
  "HasSuffix s suffix = (length s \<ge> length suffix \<and> drop (length s - length suffix) s = suffix)"

text \<open>
  The answers of the system to \<open>SaveConfig\<close>: whether \<open>os.MkdirAll\<close> fails, what
  \<open>json.MarshalIndent\<close> returns for the configuration, whether \<open>os.WriteFile\<close> fails
  (taken to fail when it opens the file, before any step). \<open>SaveConfig\<close> does not look
  inside the configuration, so its type is left open.
\<close>

record 'c save_env =
  mkdir_err :: "string \<Rightarrow> string option"
  MarshalIndent :: "'c \<Rightarrow> string + bytes"
  writefile_err :: "string \<Rightarrow> string option"

definition SaveConfig :: "'c save_env \<Rightarrow> string \<Rightarrow> 'c \<Rightarrow> string \<Rightarrow> (string + string) \<times> fs_step list" where
  "SaveConfig e g_dataDir config filename =
     (let configDir = Join [g_dataDir, ''configs''] in
      case mkdir_err e configDir of
        Some msg \<Rightarrow> (Inl msg, [])
      | None \<Rightarrow>
          let filename1 = (if \<not> HasSuffix filename ''.json'' then filename @ ''.json'' else filename);
              filePath = Join [configDir, filename1]
          in (case MarshalIndent e config of
                Inl msg \<Rightarrow> (Inl msg, [])
              | Inr data \<Rightarrow>
                  (case writefile_err e filePath of
                     Some msg \<Rightarrow> (Inl msg, [])
                   | None \<Rightarrow> (Inr filePath, WriteFile_steps filePath data))))"

text \<open>
  The two properties the specification gives to the write, in its words: the document
  reaches the configuration path by a rename, and the path never holds anything but the
  previous document or the complete new one.
\<close>

definition renamed_onto :: "fs_step list \<Rightarrow> string \<Rightarrow> bool" where
  "renamed_onto steps path = list_ex (\<lambda>st. case st of Rename a b \<Rightarrow> b = path | _ \<Rightarrow> False) steps"

definition never_half_written :: "fsys \<Rightarrow> fs_step list \<Rightarrow> string \<Rightarrow> bytes \<Rightarrow> bool" where
  "never_half_written fs steps path data =
     list_all (\<lambda>fs1. fs1 path = fs path \<or> fs1 path = Some data) (states_after fs steps)"


section \<open>Proxy module handlers\<close>

datatype gin_response =
    JSON_message int int string
  | JSON_data int int string "string list"
  | Data int string bytes

datatype handled = Responded gin_response | NilPanic

subsection \<open>Log retrieval\<close>

definition DefaultQuery :: "string option \<Rightarrow> string \<Rightarrow> string" where
  "DefaultQuery param defaultValue = (case param of Some v \<Rightarrow> v | None \<Rightarrow> defaultValue)"

text \<open>
  \<open>strconv.Atoi\<close> on a 64-bit platform: an optional sign, at least one decimal digit,
  nothing else, and a value that fits an \<open>int\<close>.
\<close>

definition is_digit :: "char \<Rightarrow> bool" where
  "is_digit c = (let n = of_char c :: nat in 48 \<le> n \<and> n \<le> 57)"

definition digits_value :: "string \<Rightarrow> nat" where
  "digits_value ds = foldl (\<lambda>n ch. n * 10 + (of_char ch - 48)) 0 ds"

definition Atoi :: "string \<Rightarrow> int option" where
  "Atoi s =
     (case (case s of
              [] \<Rightarrow> (False, [])
            | c # cs \<Rightarrow> if c = CHR ''-'' then (True, cs) else if c = CHR ''+'' then (False, cs) else (False, s)) of
        (neg, ds) \<Rightarrow>
          if ds = [] \<or> \<not> list_all is_digit ds then None
          else
            let n = (if neg then - int (digits_value ds) else int (digits_value ds)) in
            if - (2 ^ 63) \<le> n \<and> n < 2 ^ 63 then Some n else None)"

text \<open>
  Modelled from the spec: \<open>Service.GetLogs\<close> of the proxy module is not among the source
  files. The specification says of it that log retrieval "returns the most recent N
  lines"; the captured lines are kept oldest first.
\<close>

definition service_GetLogs :: "string list \<Rightarrow> int \<Rightarrow> string list" where
  "service_GetLogs captured limit = drop (length captured - nat limit) captured"

text \<open>
  The \<open>switch\<close> in the loop of \<open>Handler.GetLogs\<close>: whether the line is appended to
  \<open>filteredLogs\<close>.
\<close>

definition level_appends :: "string \<Rightarrow> string \<Rightarrow> bool" where
  "level_appends level line =
     (if level = ''error'' then
        Contains line ''ERR'' \<or> Contains line ''FATA'' \<or> Contains line ''error''
      else if level = ''warn'' then
        Contains line ''WARN'' \<or> Contains line ''warning''
      else if level = ''info'' then
        Contains line ''INFO'' \<or> Contains line ''info''
      else True)"

fun filter_logs :: "string \<Rightarrow> string list \<Rightarrow> string list \<Rightarrow> string list" where
  "filter_logs level [] filteredLogs = filteredLogs"
| "filter_logs level (line # rest) filteredLogs =
     filter_logs level rest
       (if level_appends level line then filteredLogs @ [line] else filteredLogs)"

text \<open>
  \<open>Handler.GetLogs\<close>, from the captured lines and the two query parameters (\<open>None\<close>
  when the parameter is not in the query). The \<open>data\<close> of the answer is the filtered
  slice.
\<close>

definition GetLogs :: "string list \<Rightarrow> string option \<Rightarrow> string option \<Rightarrow> gin_response" where
  "GetLogs captured limitParam levelParam =
     (let limitStr = DefaultQuery limitParam ''200'';
          level = DefaultQuery levelParam ''all'';
          limit = (case Atoi limitStr of
                     Some l \<Rightarrow> if l > 0 then l else 200
                   | None \<Rightarrow> 200);
          logs = service_GetLogs captured limit
      in JSON_data 200 0 ''success'' (filter_logs level logs []))"

subsection \<open>Bridge to the Mihomo control API\<close>

text \<open>
  What the network answers to a request: a transport error, or a response with its
  status, the bytes \<open>io.ReadAll\<close> got from its body and the error \<open>io.ReadAll\<close>
  returned (which the handlers drop). \<open>request_err\<close> is the error of
  \<open>http.NewRequest\<close> for a URL it cannot parse. \<open>ExternalController\<close> is the field of
  the proxy service's configuration that the handlers read.
\<close>

datatype roundtrip = TransportErr string | Upstream int bytes "string option"

record bridge_env =
  ExternalController :: string
  request_err :: "string \<Rightarrow> string option"
  transport :: "string \<Rightarrow> string \<Rightarrow> bytes \<Rightarrow> roundtrip"

text \<open>\<open>http.Get\<close> and \<open>client.Get\<close>: build the request, then send it.\<close>

definition http_Get_url :: "bridge_env \<Rightarrow> string \<Rightarrow> roundtrip" where
  "http_Get_url e url =
     (case request_err e url of
        Some msg \<Rightarrow> TransportErr msg
      | None \<Rightarrow> transport e ''GET'' url [])"

text \<open>The prefix of the 503 message, in UTF-8.\<close>

definition unavailable_prefix :: string where
  "unavailable_prefix = ''Mihomo API '' @
     [CHR 0xE4, CHR 0xB8, CHR 0x8D, CHR 0xE5, CHR 0x8F, CHR 0xAF, CHR 0xE7, CHR 0x94, CHR 0xA8]
     @ '': ''"

definition ProxyMihomoGetProxies :: "bridge_env \<Rightarrow> handled" where
  "ProxyMihomoGetProxies e =
     (let apiAddr = (if ExternalController e = [] then ''127.0.0.1:9090'' else ExternalController e) in
      case http_Get_url e (''http://'' @ apiAddr @ ''/proxies'') of
        TransportErr err \<Rightarrow> Responded (JSON_message 503 1 (unavailable_prefix @ err))
      | Upstream status body rerr \<Rightarrow> Responded (Data status ''application/json'' body))"

definition ProxyMihomoGetProxy :: "bridge_env \<Rightarrow> string \<Rightarrow> handled" where
  "ProxyMihomoGetProxy e name =
     (let apiAddr = (if ExternalController e = [] then ''127.0.0.1:9090'' else ExternalController e) in
      case http_Get_url e (''http://'' @ apiAddr @ ''/proxies/'' @ name) of
        TransportErr err \<Rightarrow> Responded (JSON_message 503 1 (unavailable_prefix @ err))
      | Upstream status body rerr \<Rightarrow> Responded (Data status ''application/json'' body))"

text \<open>
  \<open>ProxyMihomoSelectProxy\<close> drops the error of \<open>http.NewRequest\<close> and sets a header on
  the request: when the request could not be built it is \<open>nil\<close>.
\<close>

definition ProxyMihomoSelectProxy :: "bridge_env \<Rightarrow> string \<Rightarrow> bytes \<Rightarrow> handled" where
  "ProxyMihomoSelectProxy e name body =
     (let apiAddr = (if ExternalController e = [] then ''127.0.0.1:9090'' else ExternalController e);
          url = ''http://'' @ apiAddr @ ''/proxies/'' @ name
      in case request_err e url of
           Some msg \<Rightarrow> NilPanic
         | None \<Rightarrow>
             (case transport e ''PUT'' url body of
                TransportErr err \<Rightarrow> Responded (JSON_message 503 1 (unavailable_prefix @ err))
              | Upstream status respBody rerr \<Rightarrow> Responded (Data status ''application/json'' respBody)))"

definition ProxyMihomoTestDelay :: "bridge_env \<Rightarrow> string \<Rightarrow> string \<Rightarrow> string \<Rightarrow> handled" where
  "ProxyMihomoTestDelay e name url_q timeout_q =
     (let url = (if url_q = [] then ''http://www.gstatic.com/generate_204'' else url_q);
          timeout = (if timeout_q = [] then ''5000'' else timeout_q);
          apiAddr = (if ExternalController e = [] then ''127.0.0.1:9090'' else ExternalController e);
          targetURL = ''http://'' @ apiAddr @ ''/proxies/'' @ name @ ''/delay?url='' @ url
                      @ ''&timeout='' @ timeout
      in case http_Get_url e targetURL of
           TransportErr err \<Rightarrow> Responded (JSON_message 503 1 (unavailable_prefix @ err))
         | Upstream status body rerr \<Rightarrow> Responded (Data status ''application/json'' body))"

text \<open>The four bridged routes registered by \<open>RegisterRoutes\<close>, as one call type.\<close>

datatype bridged_call =
    GetProxies
  | GetProxy string
  | SelectProxy string bytes
  | TestDelay string string string

fun bridge :: "bridge_env \<Rightarrow> bridged_call \<Rightarrow> handled" where
  "bridge e GetProxies = ProxyMihomoGetProxies e"
| "bridge e (GetProxy name) = ProxyMihomoGetProxy e name"
| "bridge e (SelectProxy name body) = ProxyMihomoSelectProxy e name body"
| "bridge e (TestDelay name url_q timeout_q) = ProxyMihomoTestDelay e name url_q timeout_q"


section \<open>Notions used in the properties\<close>

text \<open>
  The invariant of the streaming loop: \<open>written\<close> is not negative, the list of shown
  percent values starts with 0, is ascending and ends with the record's current value, and
  that value is \<open>written / totalSize * 100\<close> when a content length is known; without one
  every shown value is 0.
\<close>

definition copy_inv :: "int \<Rightarrow> copy_state \<Rightarrow> bool" where
  "copy_inv totalSize st =
     (case st of (out, written, p, sh) \<Rightarrow>
        0 \<le> written \<and> sh \<noteq> [] \<and> hd sh = 0 \<and> sorted sh \<and> last sh = Progress p \<and>
        (if totalSize > 0 then Progress p = real_of_int written / real_of_int totalSize * 100
         else \<forall>x \<in> set sh. x = 0))"

text \<open>The path \<open>SaveConfig\<close> writes to: \<open>.json\<close> is appended to a name without it.\<close>

definition config_path :: "string \<Rightarrow> string \<Rightarrow> string" where
  "config_path g_dataDir filename =
     Join [Join [g_dataDir, ''configs''],
           if HasSuffix filename ''.json'' then filename else filename @ ''.json'']"

text \<open>
  The payload the translator works from, if any: the map that \<open>json.Unmarshal\<close> decodes
  a non-empty \<open>Config\<close> into, when it returns no error (the text is then a JSON object, or
  \<open>null\<close>). The protocol named by a payload. Whether the top-level protocol tag of a node
  is one \<open>convertProxyNode\<close> knows. And whether a node is supported: by its payload's type
  when it has such a payload, by its top-level tag otherwise.
\<close>

definition payload_of :: "(string \<Rightarrow> json_object option) \<Rightarrow> ProxyNode \<Rightarrow> json_object option" where
  "payload_of parse node = (if node_Config node \<noteq> [] then parse (node_Config node) else None)"

definition payload_type :: "json_object \<Rightarrow> string" where
  "payload_type config = ToLower (fst (assert_string (map_of config ''type'')))"

definition tag_recognized :: "ProxyNode \<Rightarrow> bool" where
  "tag_recognized node =
     (ToLower (node_Type node) \<in> set [''ss'', ''shadowsocks'', ''vmess'', ''vless'', ''trojan'',
                                       ''hysteria2'', ''hy2'', ''socks'', ''socks5'', ''http''])"

definition supported :: "(string \<Rightarrow> json_object option) \<Rightarrow> ProxyNode \<Rightarrow> bool" where
  "supported parse node =
     (case payload_of parse node of
        Some config \<Rightarrow> payload_type config \<in> set [''ss'', ''vmess'', ''trojan'', ''vless'']
      | None \<Rightarrow> tag_recognized node)"

text \<open>
  The control address a bridged call resolves to, and the method, path and body of the
  request that stands for the call on the engine's control API.
\<close>

definition resolved_addr :: "bridge_env \<Rightarrow> string" where
  "resolved_addr e = (if ExternalController e = [] then ''127.0.0.1:9090'' else ExternalController e)"

fun call_method :: "bridged_call \<Rightarrow> string" where
  "call_method (SelectProxy name body) = ''PUT''"
| "call_method call = ''GET''"

fun call_body :: "bridged_call \<Rightarrow> bytes" where
  "call_body (SelectProxy name body) = body"
| "call_body call = []"

fun call_path :: "bridged_call \<Rightarrow> string" where
  "call_path GetProxies = ''/proxies''"
| "call_path (GetProxy name) = ''/proxies/'' @ name"
| "call_path (SelectProxy name body) = ''/proxies/'' @ name"
| "call_path (TestDelay name url_q timeout_q) =
     ''/proxies/'' @ name @ ''/delay?url=''
       @ (if url_q = [] then ''http://www.gstatic.com/generate_204'' else url_q)
       @ ''&timeout='' @ (if timeout_q = [] then ''5000'' else timeout_q)"

definition call_url :: "bridge_env \<Rightarrow> bridged_call \<Rightarrow> string" where
  "call_url e call = ''http://'' @ resolved_addr e @ call_path call"


section \<open>Concrete inputs\<close>

subsection \<open>Services, file systems and environments\<close>

text \<open>
  A Linux host on which nothing fails except the network; a catalogue with sing-box
  installed and one with Mihomo installed, whose binary is on disk; responses of ten bytes
  with and without a content length; and an archive whose gzip stream breaks off.
\<close>

definition example_env :: env where
  "example_env =
     \<lparr>GOOS = ''linux'', GOARCH = ''amd64'',
      http_Get = (\<lambda>url. GetErr ''dial tcp: connection refused''),
      create_err = (\<lambda>p. None),
      write_err = (\<lambda>p. None),
      gunzip = (\<lambda>d. GzStream d None),
      untar = (\<lambda>d z. ([], z)),
      marshal_status = (\<lambda>sv. saved_CurrentCore sv)\<rparr>"

definition example_service :: Service where
  "example_service =
     \<lparr>dataDir = ''/data'', currentCore = ''mihomo'',
      cores = [''mihomo'' \<mapsto> \<lparr>Name = ''Mihomo'', Version = [], LatestVersion = ''1.18.10'',
                               Installed = False, Path = ''/data/cores/mihomo''\<rparr>,
               ''singbox'' \<mapsto> \<lparr>Name = ''sing-box'', Version = ''1.10.5'', LatestVersion = ''1.10.5'',
                                Installed = True, Path = ''/data/cores/sing-box''\<rparr>],
      downloadProgress = Map.empty\<rparr>"

definition example_env_sized :: env where
  "example_env_sized = example_env
     \<lparr>http_Get := (\<lambda>url. Response \<lparr>StatusCode = 200, ContentLength = 10,
          reads = [''abcd'', ''efg''], last_read = ''hij'', ending = EOF\<rparr>)\<rparr>"

definition example_env_unsized :: env where
  "example_env_unsized = example_env
     \<lparr>http_Get := (\<lambda>url. Response \<lparr>StatusCode = 200, ContentLength = - 1,
          reads = [''abcd'', ''efg''], last_read = ''hij'', ending = EOF\<rparr>)\<rparr>"

definition installed_service :: Service where
  "installed_service =
     \<lparr>dataDir = ''/data'', currentCore = ''mihomo'',
      cores = [''mihomo'' \<mapsto> \<lparr>Name = ''Mihomo'', Version = ''1.18.9'', LatestVersion = ''1.18.10'',
                               Installed = True, Path = ''/data/cores/mihomo''\<rparr>,
               ''singbox'' \<mapsto> \<lparr>Name = ''sing-box'', Version = [], LatestVersion = [],
                                Installed = False, Path = ''/data/cores/sing-box''\<rparr>],
      downloadProgress = Map.empty\<rparr>"

definition installed_files :: fsys where
  "installed_files = [''/data/cores/mihomo-linux-amd64'' \<mapsto> ''OLD-BINARY'']"

definition example_env_corrupt :: env where
  "example_env_corrupt = example_env
     \<lparr>http_Get := (\<lambda>url. Response \<lparr>StatusCode = 200, ContentLength = 10,
          reads = [''abcd'', ''efg''], last_read = ''hij'', ending = EOF\<rparr>),
      gunzip := (\<lambda>d. GzStream ''NEW'' (Some ''unexpected EOF''))\<rparr>"

definition example_save_env :: "string save_env" where
  "example_save_env =
     \<lparr>mkdir_err = (\<lambda>p. None), MarshalIndent = (\<lambda>c. Inr c), writefile_err = (\<lambda>p. None)\<rparr>"

subsection \<open>Nodes\<close>

text \<open>
  Five payload texts and what \<open>json.Unmarshal\<close> into a map makes of them: three
  objects; \<open>null\<close>, which it accepts and which leaves the map empty; and an array, which is
  JSON but which it refuses for a map. And the protocol tag \<open>socks\<close> spelt with the
  Kelvin sign for its \<open>k\<close>.
\<close>

definition dq :: "string \<Rightarrow> string" where
  "dq s = [CHR 0x22] @ s @ [CHR 0x22]"

definition vless_tls_text :: string where
  "vless_tls_text = ''{'' @ dq ''type'' @ '':'' @ dq ''vless'' @ '','' @ dq ''server'' @ '':''
     @ dq ''example.com'' @ '','' @ dq ''tls'' @ '':true}''"

definition vmess_tls_text :: string where
  "vmess_tls_text = ''{'' @ dq ''type'' @ '':'' @ dq ''vmess'' @ '','' @ dq ''server'' @ '':''
     @ dq ''example.com'' @ '','' @ dq ''tls'' @ '':true}''"

definition hysteria2_text :: string where
  "hysteria2_text = ''{'' @ dq ''type'' @ '':'' @ dq ''hysteria2'' @ '','' @ dq ''server'' @ '':''
     @ dq ''example.com'' @ ''}''"

definition kelvin_socks :: string where
  "kelvin_socks = ''soc'' @ kelvin_sign @ ''s''"

definition null_text :: string where
  "null_text = ''null''"

definition array_text :: string where
  "array_text = ''[1,2]''"

definition example_parse :: "string \<Rightarrow> json_object option" where
  "example_parse text =
     (if text = null_text then Some []
      else if text = vless_tls_text then
        Some [(''type'', JStr ''vless''), (''server'', JStr ''example.com''), (''tls'', JBool True)]
      else if text = vmess_tls_text then
        Some [(''type'', JStr ''vmess''), (''server'', JStr ''example.com''), (''tls'', JBool True)]
      else if text = hysteria2_text then
        Some [(''type'', JStr ''hysteria2''), (''server'', JStr ''example.com'')]
      else None)"

definition example_node :: "string \<Rightarrow> string \<Rightarrow> string \<Rightarrow> ProxyNode" where
  "example_node name type config =
     \<lparr>node_Name = name, node_Type = type, node_Server = ''203.0.113.7'', node_Port = 443,
      node_Config = config\<rparr>"

definition example_options :: ConfigGeneratorOptions where
  "example_options = \<lparr>MixedPort = 7890, AllowLan = False, EnableTUN = False\<rparr>"

subsection \<open>Control API and log\<close>

definition example_bridge_env :: bridge_env where
  "example_bridge_env =
     \<lparr>ExternalController = [],
      request_err = (\<lambda>url. None),
      transport = (\<lambda>method url body.
         if method = ''GET'' \<and> url = ''http://127.0.0.1:9090/proxies''
         then Upstream 200 ''{}'' None
         else TransportErr ''connection refused'')\<rparr>"

text \<open>
  A control API that is up and answers every request with 204, and a proxy group named
  \<open>100%\<close>: the URL of that group has a bad escape, so \<open>http.NewRequest\<close> returns the
  error of \<open>url.Parse\<close> for it.
\<close>

definition percent_url :: string where
  "percent_url = ''http://127.0.0.1:9090/proxies/100%''"

definition escape_error :: string where
  "escape_error = ''parse '' @ dq percent_url @ '': invalid URL escape '' @ dq ''%''"

definition example_bridge_env_escape :: bridge_env where
  "example_bridge_env_escape =
     \<lparr>ExternalController = [],
      request_err = (\<lambda>url. if url = percent_url then Some escape_error else None),
      transport = (\<lambda>method url body. Upstream 204 [] None)\<rparr>"

definition example_bridge_env_remote :: bridge_env where
  "example_bridge_env_remote = example_bridge_env\<lparr>ExternalController := ''10.0.0.2:9999''\<rparr>"

definition example_log :: "string list" where
  "example_log = [''INFO start'', ''WARN slow'', ''ERR failed'', ''info done'']"


section \<open>Verified properties\<close>

subsection \<open>The helper functions on concrete inputs\<close>

lemma Atoi_examples:
  "Atoi ''500'' = Some 500" "Atoi ''-12'' = Some (- 12)" "Atoi ''+7'' = Some 7"
  "Atoi ''12a'' = None" "Atoi [] = None" "Atoi ''+'' = None"
  "Atoi ''9223372036854775807'' = Some 9223372036854775807"
  "Atoi ''9223372036854775808'' = None"
  by (simp_all add: Atoi_def is_digit_def digits_value_def)

lemma ToLower_examples:
  "ToLower ''VMess-2'' = ''vmess-2''"
  "ToLower (''SOC'' @ kelvin_sign @ ''S5'') = ''socks5''"
  "ToLower (''hyster'' @ capital_I_with_dot @ ''a2'') = ''hysteria2''"
  by (simp_all add: ToLower.simps kelvin_sign_def capital_I_with_dot_def lower_char_def char_of_def
      bit_Suc_0_iff)

lemma go_int_examples:
  "go_int 443 = 443" "go_int (10 ^ 30) = - 9223372036854775808"
  by (simp_all add: go_int_def Let_def)

lemma show_int_examples: "show_int 404 = ''404''" "show_int 0 = ''0''" "show_int (- 17) = ''-17''"
  by (simp_all add: show_int_def show_nat.simps digit_char_def char_of_def bit_Suc_0_iff)

lemma Join_examples:
  "Join [''/data'', ''cores'', ''download.tmp''] = ''/data/cores/download.tmp''"
  "Join [''/data'', ''cores'', []] = ''/data/cores''"
  by (simp_all add: Join_def)

subsection \<open>Polling the download progress\<close>

text \<open>
  C10. \<open>GetDownloadProgress\<close> always answers with a progress record and returns the
  service as it was. For an engine identifier with no entry in the progress map (no
  download was ever started for it) the answer is the zero record: not downloading,
  progress 0, no error. For an identifier with an entry, the answer is that entry.
\<close>

theorem GetDownloadProgress_total:
  "snd (GetDownloadProgress s coreType) = s \<and>
   (downloadProgress s coreType = None \<longrightarrow>
      fst (GetDownloadProgress s coreType) = \<lparr>Downloading = False, Progress = 0, Speed = 0, Error = []\<rparr>) \<and>
   (\<forall>p. downloadProgress s coreType = Some p \<longrightarrow> fst (GetDownloadProgress s coreType) = p)"
  by (simp add: GetDownloadProgress_def zero_DownloadProgress_def split: option.split)

theorem GetDownloadProgress_total_witness:
  "downloadProgress example_service ''mihomo'' = None \<and>
   GetDownloadProgress example_service ''mihomo'' =
     (\<lparr>Downloading = False, Progress = 0, Speed = 0, Error = []\<rparr>, example_service) \<and>
   fst (GetDownloadProgress
          (example_service\<lparr>downloadProgress :=
              [''mihomo'' \<mapsto> \<lparr>Downloading = True, Progress = 40, Speed = 0, Error = []\<rparr>]\<rparr>)
          ''mihomo'') = \<lparr>Downloading = True, Progress = 40, Speed = 0, Error = []\<rparr>"
proof -
  have h: "downloadProgress example_service ''mihomo'' = None"
    by (simp add: example_service_def)
  have k: "downloadProgress
      (example_service\<lparr>downloadProgress :=
          [''mihomo'' \<mapsto> \<lparr>Downloading = True, Progress = 40, Speed = 0, Error = []\<rparr>]\<rparr>) ''mihomo''
      = Some \<lparr>Downloading = True, Progress = 40, Speed = 0, Error = []\<rparr>"
    by simp
  from GetDownloadProgress_total [of example_service "''mihomo''"] h
       GetDownloadProgress_total [of "example_service\<lparr>downloadProgress :=
          [''mihomo'' \<mapsto> \<lparr>Downloading = True, Progress = 40, Speed = 0, Error = []\<rparr>]\<rparr>" "''mihomo''"] k
  show ?thesis by (simp add: prod_eq_iff)
qed

subsection \<open>Switching the engine\<close>

text \<open>
  C4. \<open>SwitchCore\<close> on an identifier that is not in the catalogue, or on an engine that is
  not installed, returns an error, leaves the service (and so the current engine) as it
  was and starts no save. On an installed engine it returns no error, the current engine
  becomes that identifier, \<open>GetStatus\<close> on the new state reports it, and the save it
  starts writes (when the write succeeds) a status record whose current engine is that
  identifier. No process is touched: the operation only changes the service record.
\<close>

theorem SwitchCore_contract:
  "(cores s coreType = None \<longrightarrow>
      SwitchCore s coreType = (Some (''unknown core type: '' @ coreType), s, False)) \<and>
   (\<forall>core. cores s coreType = Some core \<and> \<not> Installed core \<longrightarrow>
      SwitchCore s coreType = (Some (''core '' @ coreType @ '' is not installed''), s, False)) \<and>
   (\<forall>core. cores s coreType = Some core \<and> Installed core \<longrightarrow>
      SwitchCore s coreType = (None, s\<lparr>currentCore := coreType\<rparr>, True) \<and>
      CurrentCore (GetStatus (fst (snd (SwitchCore s coreType)))) = coreType \<and>
      (write_err e (Join [dataDir s, ''core_status.json'']) = None \<longrightarrow>
         run_spawned e (fst (snd (SwitchCore s coreType))) (snd (snd (SwitchCore s coreType))) fs0
             (Join [dataDir s, ''core_status.json''])
           = Some (marshal_status e \<lparr>saved_CurrentCore = coreType, Versions = Versions (saved_of s)\<rparr>)))"
  by (simp add: SwitchCore_def GetStatus_def run_spawned_def saveStatus_def os_WriteFile_def saved_of_def)

theorem SwitchCore_contract_witness:
  "SwitchCore example_service ''v2ray'' = (Some ''unknown core type: v2ray'', example_service, False) \<and>
   SwitchCore example_service ''mihomo'' = (Some ''core mihomo is not installed'', example_service, False) \<and>
   SwitchCore example_service ''singbox'' = (None, example_service\<lparr>currentCore := ''singbox''\<rparr>, True) \<and>
   CurrentCore (GetStatus (fst (snd (SwitchCore example_service ''singbox'')))) = ''singbox'' \<and>
   run_spawned example_env (example_service\<lparr>currentCore := ''singbox''\<rparr>) True Map.empty
       ''/data/core_status.json'' = Some ''singbox''"
proof -
  have c1: "cores example_service ''v2ray'' = None"
    by (simp add: example_service_def)
  have c2: "cores example_service ''mihomo'' =
      Some \<lparr>Name = ''Mihomo'', Version = [], LatestVersion = ''1.18.10'',
            Installed = False, Path = ''/data/cores/mihomo''\<rparr>"
    by (simp add: example_service_def)
  have c3: "cores example_service ''singbox'' =
      Some \<lparr>Name = ''sing-box'', Version = ''1.10.5'', LatestVersion = ''1.10.5'',
            Installed = True, Path = ''/data/cores/sing-box''\<rparr>"
    by (simp add: example_service_def)
  have w: "write_err example_env (Join [dataDir example_service, ''core_status.json'']) = None"
    by (simp add: example_env_def)
  have j: "Join [dataDir example_service, ''core_status.json''] = ''/data/core_status.json''"
    by (simp add: Join_def example_service_def)
  have m: "\<And>sv. marshal_status example_env sv = saved_CurrentCore sv"
    by (simp add: example_env_def)
  from SwitchCore_contract [of example_service "''v2ray''" example_env Map.empty] c1
  have a: "SwitchCore example_service ''v2ray'' =
      (Some ''unknown core type: v2ray'', example_service, False)"
    by simp
  from SwitchCore_contract [of example_service "''mihomo''" example_env Map.empty] c2
  have b: "SwitchCore example_service ''mihomo'' =
      (Some ''core mihomo is not installed'', example_service, False)"
    by simp
  from SwitchCore_contract [of example_service "''singbox''" example_env Map.empty] c3 w j m
  have c: "SwitchCore example_service ''singbox'' = (None, example_service\<lparr>currentCore := ''singbox''\<rparr>, True) \<and>
      CurrentCore (GetStatus (fst (snd (SwitchCore example_service ''singbox'')))) = ''singbox'' \<and>
      run_spawned example_env (example_service\<lparr>currentCore := ''singbox''\<rparr>) True Map.empty
        ''/data/core_status.json'' = Some ''singbox''"
    by auto
  from a b c show ?thesis by auto
qed

subsection \<open>Download progress\<close>

lemma wrap64_id: "0 \<le> x \<Longrightarrow> x < 2 ^ 63 \<Longrightarrow> wrap64 x = x"
  by (simp add: wrap64_def)

lemma sorted_le_last: "sorted xs \<Longrightarrow> x \<in> set xs \<Longrightarrow> x \<le> last xs"
  by (induction xs) auto

lemma sorted_snoc_last: "sorted xs \<Longrightarrow> xs \<noteq> [] \<Longrightarrow> last xs \<le> v \<Longrightarrow> sorted (xs @ [v])"
  by (auto simp: sorted_append dest: sorted_le_last)

lemma percent_mono:
  assumes "0 < t" "w \<le> w'"
  shows "real_of_int w / real_of_int t * 100 \<le> real_of_int w' / real_of_int t * 100"
  using assms by (simp add: divide_right_mono)

lemma read_update_inv:
  assumes "copy_inv t (out, written, p, sh)" "written + int (length buf) < 2 ^ 63"
  shows "copy_inv t (read_update t buf (out, written, p, sh))"
proof (cases "length buf > 0")
  case False
  then show ?thesis using assms by (simp add: read_update_def)
next
  case True
  from assms have w: "0 \<le> written" and ne: "sh \<noteq> []" and h: "hd sh = 0" and so: "sorted sh"
    and la: "last sh = Progress p"
    by (simp_all add: copy_inv_def)
  have wr: "wrap64 (written + int (length buf)) = written + int (length buf)"
    using w assms(2) by (intro wrap64_id) simp_all
  show ?thesis
  proof (cases "t > 0")
    case True
    from assms True have pe: "Progress p = real_of_int written / real_of_int t * 100"
      by (simp add: copy_inv_def)
    have le: "last sh \<le> real_of_int (written + int (length buf)) / real_of_int t * 100"
      unfolding la pe using True by (intro percent_mono) simp_all
    have "sorted (sh @ [real_of_int (written + int (length buf)) / real_of_int t * 100])"
      using so ne le by (rule sorted_snoc_last)
    then show ?thesis
      using \<open>length buf > 0\<close> True w ne h wr
      by (simp add: read_update_def copy_inv_def Let_def)
  next
    case False
    from assms False have z: "\<forall>x \<in> set sh. x = 0"
      by (simp add: copy_inv_def)
    with ne la have p0: "Progress p = 0" by (metis last_in_set)
    have "sorted (sh @ [Progress p])"
      using so ne la by (intro sorted_snoc_last) simp_all
    then show ?thesis
      using \<open>length buf > 0\<close> False w ne h wr z p0
      by (simp add: read_update_def copy_inv_def Let_def)
  qed
qed

lemma read_update_written:
  "0 \<le> written \<Longrightarrow> written + int (length buf) < 2 ^ 63 \<Longrightarrow>
   fst (snd (read_update t buf (out, written, p, sh))) = written + int (length buf)"
  by (simp add: read_update_def Let_def wrap64_id)

lemma read_loop_inv:
  "copy_inv t st \<Longrightarrow> fst (snd st) + sum_list (map (\<lambda>buf. int (length buf)) bufs) < 2 ^ 63 \<Longrightarrow>
   copy_inv t (read_loop t bufs st)"
proof (induction bufs arbitrary: st)
  case Nil
  then show ?case by simp
next
  case (Cons buf rest)
  obtain out written p sh where st: "st = (out, written, p, sh)"
    by (cases st) auto
  have nn: "0 \<le> sum_list (map (\<lambda>buf. int (length buf)) rest)"
    by (rule sum_list_nonneg) auto
  from Cons.prems st have w0: "0 \<le> written" by (simp add: copy_inv_def)
  from Cons.prems st nn have b: "written + int (length buf) < 2 ^ 63" by simp
  have i: "copy_inv t (read_update t buf (out, written, p, sh))"
    using Cons.prems(1) b unfolding st by (rule read_update_inv)
  have w: "fst (snd (read_update t buf (out, written, p, sh))) = written + int (length buf)"
    using w0 b by (rule read_update_written)
  have "copy_inv t (read_loop t rest (read_update t buf (out, written, p, sh)))"
    using i Cons.prems(2) st w by (intro Cons.IH) simp_all
  then show ?case by (simp add: st)
qed

lemma DownloadCore_loop_case:
  assumes "getCoreDownloadURL e s c = Ok url" "http_Get e url = Response resp"
    "StatusCode resp = 200"
    "os_Create e (Join [dataDir s, ''cores'', ''download.tmp'']) fs0 = Inr fs1"
    "read_loop (ContentLength resp) (reads resp @ [last_read resp])
       ([], 0, \<lparr>Downloading = True, Progress = 0, Speed = 0, Error = []\<rparr>, [0]) = (out, written, p, sh)"
  shows "percents (DownloadCore e s fs0 c) = sh \<and>
    map_option Progress (downloadProgress (service (DownloadCore e s fs0 c)) c) = Some (Progress p)"
  using assms
  by (simp add: DownloadCore_def leave_def stall_def Let_def
      split: body_end.split prod.split option.split)

lemma DownloadCore_early_case:
  assumes "\<forall>url. getCoreDownloadURL e s c = Ok url \<longrightarrow>
     (\<forall>resp. http_Get e url = Response resp \<longrightarrow> StatusCode resp = 200 \<longrightarrow>
        (\<exists>msg. os_Create e (Join [dataDir s, ''cores'', ''download.tmp'']) fs0 = Inl msg))"
  shows "percents (DownloadCore e s fs0 c) = [0] \<and>
    map_option Progress (downloadProgress (service (DownloadCore e s fs0 c)) c) = Some 0"
  using assms
  by (auto simp add: DownloadCore_def leave_def stall_def Let_def
      split: go_result.split http_result.split sum.split)

lemma DownloadCore_percents:
  "(percents (DownloadCore e s fs0 c) = [0] \<and>
    map_option Progress (downloadProgress (service (DownloadCore e s fs0 c)) c) = Some 0) \<or>
   (\<exists>url resp. http_Get e url = Response resp \<and>
      percents (DownloadCore e s fs0 c) =
        snd (snd (snd (read_loop (ContentLength resp) (reads resp @ [last_read resp])
           ([], 0, \<lparr>Downloading = True, Progress = 0, Speed = 0, Error = []\<rparr>, [0])))) \<and>
      map_option Progress (downloadProgress (service (DownloadCore e s fs0 c)) c) =
        Some (Progress (fst (snd (snd (read_loop (ContentLength resp) (reads resp @ [last_read resp])
           ([], 0, \<lparr>Downloading = True, Progress = 0, Speed = 0, Error = []\<rparr>, [0])))))))"
proof (cases "\<exists>url resp fs1. getCoreDownloadURL e s c = Ok url \<and> http_Get e url = Response resp \<and>
    StatusCode resp = 200 \<and> os_Create e (Join [dataDir s, ''cores'', ''download.tmp'']) fs0 = Inr fs1")
  case True
  then obtain url resp fs1 where h: "getCoreDownloadURL e s c = Ok url" "http_Get e url = Response resp"
    "StatusCode resp = 200" "os_Create e (Join [dataDir s, ''cores'', ''download.tmp'']) fs0 = Inr fs1"
    by blast
  obtain out written p sh where st:
    "read_loop (ContentLength resp) (reads resp @ [last_read resp])
       ([], 0, \<lparr>Downloading = True, Progress = 0, Speed = 0, Error = []\<rparr>, [0]) = (out, written, p, sh)"
    using prod_cases4 by blast
  from DownloadCore_loop_case [OF h st] h(2) st show ?thesis
    by (intro disjI2 exI [of _ url] exI [of _ resp]) simp
next
  case False
  have "getCoreDownloadURL e s c = Ok url \<longrightarrow>
     (\<forall>resp. http_Get e url = Response resp \<longrightarrow> StatusCode resp = 200 \<longrightarrow>
        (\<exists>msg. os_Create e (Join [dataDir s, ''cores'', ''download.tmp'']) fs0 = Inl msg))" for url
    using False by (cases "os_Create e (Join [dataDir s, ''cores'', ''download.tmp'']) fs0") auto
  then show ?thesis
    using DownloadCore_early_case [of e s c fs0] by blast
qed

lemma copy_inv_start:
  "copy_inv t ([], 0, \<lparr>Downloading = True, Progress = 0, Speed = 0, Error = []\<rparr>, [0])"
  by (simp add: copy_inv_def)

text \<open>
  C5. For one run of \<open>DownloadCore\<close> on one engine (with a body shorter than \<open>2^63\<close>
  bytes, so that the \<open>int64\<close> counter does not wrap): the percent values the engine's
  progress record shows, from the store at entry through every update of the streaming
  loop, start with 0 and never decrease; the record left behind holds the last of them;
  and when the response has no content length (\<open>ContentLength\<close> is -1, or 0) every one
  of them is 0.
\<close>

theorem DownloadCore_progress_monotone:
  assumes "\<forall>url resp. http_Get e url = Response resp \<longrightarrow> body_size resp < 2 ^ 63"
  shows "percents (DownloadCore e s fs0 coreType) \<noteq> [] \<and>
         hd (percents (DownloadCore e s fs0 coreType)) = 0 \<and>
         sorted (percents (DownloadCore e s fs0 coreType)) \<and>
         map_option Progress (downloadProgress (service (DownloadCore e s fs0 coreType)) coreType) =
           Some (last (percents (DownloadCore e s fs0 coreType))) \<and>
         ((\<forall>url resp. http_Get e url = Response resp \<longrightarrow> ContentLength resp \<le> 0) \<longrightarrow>
            (\<forall>x \<in> set (percents (DownloadCore e s fs0 coreType)). x = 0))"
proof -
  let ?p0 = "\<lparr>Downloading = True, Progress = 0, Speed = 0, Error = []\<rparr>"
  from DownloadCore_percents [of e s fs0 coreType]
  consider (early) "percents (DownloadCore e s fs0 coreType) = [0]"
      "map_option Progress (downloadProgress (service (DownloadCore e s fs0 coreType)) coreType) = Some 0"
    | (loop) url resp where "http_Get e url = Response resp"
      "percents (DownloadCore e s fs0 coreType) =
        snd (snd (snd (read_loop (ContentLength resp) (reads resp @ [last_read resp]) ([], 0, ?p0, [0]))))"
      "map_option Progress (downloadProgress (service (DownloadCore e s fs0 coreType)) coreType) =
        Some (Progress (fst (snd (snd (read_loop (ContentLength resp) (reads resp @ [last_read resp])
           ([], 0, ?p0, [0]))))))"
    by blast
  then show ?thesis
  proof cases
    case early
    then show ?thesis by simp
  next
    case loop
    from assms loop(1) have "body_size resp < 2 ^ 63" by blast
    then have b: "fst (snd ([], 0::int, ?p0, [0::real])) +
        sum_list (map (\<lambda>buf. int (length buf)) (reads resp @ [last_read resp])) < 2 ^ 63"
      by (simp add: body_size_def)
    have inv: "copy_inv (ContentLength resp)
        (read_loop (ContentLength resp) (reads resp @ [last_read resp]) ([], 0, ?p0, [0]))"
      using copy_inv_start b by (rule read_loop_inv)
    obtain out written p sh where st:
      "read_loop (ContentLength resp) (reads resp @ [last_read resp]) ([], 0, ?p0, [0]) = (out, written, p, sh)"
      by (cases "read_loop (ContentLength resp) (reads resp @ [last_read resp]) ([], 0, ?p0, [0])") auto
    from inv st have f: "sh \<noteq> []" "hd sh = 0" "sorted sh" "last sh = Progress p"
      and z: "\<not> ContentLength resp > 0 \<longrightarrow> (\<forall>x\<in>set sh. x = 0)"
      by (simp_all add: copy_inv_def)
    have "(\<forall>url resp. http_Get e url = Response resp \<longrightarrow> ContentLength resp \<le> 0) \<longrightarrow>
        (\<forall>x\<in>set sh. x = 0)"
      using z loop(1) by force
    with f loop(2,3) st show ?thesis by simp
  qed
qed

theorem DownloadCore_progress_monotone_witness:
  "percents (DownloadCore example_env_sized example_service Map.empty ''mihomo'') = [0, 40, 70, 100] \<and>
   sorted (percents (DownloadCore example_env_sized example_service Map.empty ''mihomo'')) \<and>
   percents (DownloadCore example_env_unsized example_service Map.empty ''mihomo'') = [0, 0, 0, 0] \<and>
   sorted (percents (DownloadCore example_env_unsized example_service Map.empty ''mihomo''))"
proof -
  have h1: "\<forall>url resp. http_Get example_env_sized url = Response resp \<longrightarrow> body_size resp < 2 ^ 63"
    by (simp add: example_env_sized_def example_env_def body_size_def)
  have h2: "\<forall>url resp. http_Get example_env_unsized url = Response resp \<longrightarrow> body_size resp < 2 ^ 63"
    by (simp add: example_env_unsized_def example_env_def body_size_def)
  have v1: "percents (DownloadCore example_env_sized example_service Map.empty ''mihomo'') = [0, 40, 70, 100]"
    by (simp add: DownloadCore_def getCoreDownloadURL_def example_env_sized_def example_env_def
        example_service_def os_Create_def Join_def read_update_def wrap64_def leave_def
        extractCore_def getCoreBinaryPath_def os_Remove_def saveStatus_def os_WriteFile_def)
  have v2: "percents (DownloadCore example_env_unsized example_service Map.empty ''mihomo'') = [0, 0, 0, 0]"
    by (simp add: DownloadCore_def getCoreDownloadURL_def example_env_unsized_def example_env_def
        example_service_def os_Create_def Join_def read_update_def wrap64_def leave_def
        extractCore_def getCoreBinaryPath_def os_Remove_def saveStatus_def os_WriteFile_def)
  from DownloadCore_progress_monotone [OF h1, of example_service Map.empty "''mihomo''"]
       DownloadCore_progress_monotone [OF h2, of example_service Map.empty "''mihomo''"] v1 v2
  show ?thesis by simp
qed

subsection \<open>A failed download\<close>

text \<open>
  C1. A run of \<open>DownloadCore\<close> for the installed engine \<open>mihomo\<close> in which the archive
  arrives whole but its gzip stream breaks off after the bytes \<open>NEW\<close>: the run fails with
  \<open>extract failed: unexpected EOF\<close> and the temporary file is removed, but the error field
  of the engine's progress record is left empty, and the binary that was installed
  (\<open>OLD-BINARY\<close>) has been replaced by the partial output \<open>NEW\<close>. A run in which the
  network fails returns \<open>download failed: dial tcp: connection refused\<close> and leaves the
  error field empty as well. The claim asks for the message in the error field and for the
  installed binary untouched.
\<close>

theorem DownloadCore_failed_extract:
  "outcome (DownloadCore example_env_corrupt installed_service installed_files ''mihomo'')
     = Failed ''extract failed: unexpected EOF'' \<and>
   map_option Error (downloadProgress
       (service (DownloadCore example_env_corrupt installed_service installed_files ''mihomo'')) ''mihomo'')
     = Some [] \<and>
   installed_files ''/data/cores/mihomo-linux-amd64'' = Some ''OLD-BINARY'' \<and>
   files (DownloadCore example_env_corrupt installed_service installed_files ''mihomo'')
       ''/data/cores/mihomo-linux-amd64'' = Some ''NEW'' \<and>
   files (DownloadCore example_env_corrupt installed_service installed_files ''mihomo'')
       ''/data/cores/download.tmp'' = None \<and>
   outcome (DownloadCore example_env installed_service installed_files ''mihomo'')
     = Failed ''download failed: dial tcp: connection refused'' \<and>
   map_option Error (downloadProgress
       (service (DownloadCore example_env installed_service installed_files ''mihomo'')) ''mihomo'')
     = Some []"
  by (simp add: DownloadCore_def getCoreDownloadURL_def example_env_corrupt_def example_env_def
        installed_service_def installed_files_def os_Create_def Join_def read_update_def wrap64_def
        leave_def extractCore_def getCoreBinaryPath_def os_Remove_def)

subsection \<open>Saving the configuration\<close>

text \<open>
  C2, as stated, fails: saving the document \<open>{}\<close> as \<open>singbox\<close> over a previous
  document issues no rename onto the configuration path, and between its two steps the
  path holds neither the previous document nor the new one (it is empty).
\<close>

theorem SaveConfig_not_atomic:
  "\<not> renamed_onto (snd (SaveConfig example_save_env ''/data'' ''{}'' ''singbox''))
        ''/data/configs/singbox.json'' \<and>
   \<not> never_half_written [''/data/configs/singbox.json'' \<mapsto> ''{old}'']
        (snd (SaveConfig example_save_env ''/data'' ''{}'' ''singbox''))
        ''/data/configs/singbox.json'' ''{}'' \<and>
   fst (SaveConfig example_save_env ''/data'' ''{}'' ''singbox'') = Inr ''/data/configs/singbox.json''"
  by (simp add: SaveConfig_def example_save_env_def Join_def HasSuffix_def WriteFile_steps_def
        renamed_onto_def never_half_written_def Let_def)

text \<open>
  C2, amended. When the directory can be made, the configuration serializes and the file
  can be opened, \<open>SaveConfig\<close> writes the serialized document onto the configuration path
  in place, with one \<open>os.WriteFile\<close>: the file is truncated, then the document is
  written, after which the path holds the document. No step is a rename, onto any path.
  The function returns the configuration path.
\<close>

theorem SaveConfig_writes_in_place:
  assumes "mkdir_err e (Join [g_dataDir, ''configs'']) = None"
    and "MarshalIndent e config = Inr data"
    and "writefile_err e (config_path g_dataDir filename) = None"
  shows "SaveConfig e g_dataDir config filename =
           (Inr (config_path g_dataDir filename),
            [Truncate (config_path g_dataDir filename), WriteData (config_path g_dataDir filename) data]) \<and>
         states_after fs0 (snd (SaveConfig e g_dataDir config filename)) =
           [fs0(config_path g_dataDir filename \<mapsto> []), fs0(config_path g_dataDir filename \<mapsto> data)] \<and>
         \<not> renamed_onto (snd (SaveConfig e g_dataDir config filename)) p"
proof -
  have eq: "SaveConfig e g_dataDir config filename =
           (Inr (config_path g_dataDir filename),
            [Truncate (config_path g_dataDir filename), WriteData (config_path g_dataDir filename) data])"
    using assms
    by (cases "HasSuffix filename ''.json''")
       (simp_all add: SaveConfig_def config_path_def WriteFile_steps_def Let_def)
  show ?thesis
    unfolding eq by (simp add: renamed_onto_def)
qed

theorem SaveConfig_writes_in_place_witness:
  "SaveConfig example_save_env ''/data'' ''{}'' ''singbox'' =
     (Inr ''/data/configs/singbox.json'',
      [Truncate ''/data/configs/singbox.json'', WriteData ''/data/configs/singbox.json'' ''{}'']) \<and>
   states_after Map.empty (snd (SaveConfig example_save_env ''/data'' ''{}'' ''singbox'')) =
     [[''/data/configs/singbox.json'' \<mapsto> []], [''/data/configs/singbox.json'' \<mapsto> ''{}'']]"
proof -
  have p: "config_path ''/data'' ''singbox'' = ''/data/configs/singbox.json''"
    by (simp add: config_path_def Join_def HasSuffix_def)
  have h1: "mkdir_err example_save_env (Join [''/data'', ''configs'']) = None"
    by (simp add: example_save_env_def)
  have h2: "MarshalIndent example_save_env ''{}'' = Inr ''{}''"
    by (simp add: example_save_env_def)
  have h3: "writefile_err example_save_env (config_path ''/data'' ''singbox'') = None"
    by (simp add: example_save_env_def)
  from SaveConfig_writes_in_place [OF h1 h2 h3, of Map.empty] show ?thesis
    unfolding p by simp
qed

subsection \<open>Translating nodes\<close>

lemma convertFromConfig_Some_iff:
  "convertFromConfig name config \<noteq> None \<longleftrightarrow>
     payload_type config \<in> set [''ss'', ''vmess'', ''trojan'', ''vless'']"
  by (simp add: convertFromConfig_def payload_type_def Let_def)

lemma convertProxyNode_payload:
  "payload_of parse node = Some config \<Longrightarrow>
   convertProxyNode parse node = convertFromConfig (node_Name node) config"
  by (simp add: convertProxyNode_def payload_of_def Let_def)

lemma convertProxyNode_Some_iff:
  "convertProxyNode parse node \<noteq> None \<longleftrightarrow> supported parse node"
proof (cases "payload_of parse node")
  case None
  then show ?thesis
    by (simp add: convertProxyNode_def payload_of_def supported_def tag_recognized_def Let_def)
next
  case (Some config)
  with convertFromConfig_Some_iff [of "node_Name node" config] show ?thesis
    by (simp add: convertProxyNode_payload supported_def)
qed

lemma convert_nodes_acc:
  "convert_nodes parse nodes (outbounds, nodeNames) =
     (outbounds @ map (\<lambda>n. the (convertProxyNode parse n)) (filter (supported parse) nodes),
      nodeNames @ map node_Name (filter (supported parse) nodes))"
proof (induction nodes arbitrary: outbounds nodeNames)
  case Nil
  then show ?case by simp
next
  case (Cons node rest)
  show ?case
  proof (cases "convertProxyNode parse node")
    case None
    then have "\<not> supported parse node"
      using convertProxyNode_Some_iff [of parse node] by simp
    with None Cons.IH show ?thesis by simp
  next
    case (Some outbound)
    then have "supported parse node"
      using convertProxyNode_Some_iff [of parse node] by simp
    with Some Cons.IH show ?thesis by simp
  qed
qed

lemma generateOutbounds_eq:
  "generateOutbounds parse nodes options =
     map (\<lambda>n. the (convertProxyNode parse n)) (filter (supported parse) nodes)
     @ selector_outbounds (map node_Name (filter (supported parse) nodes))
     @ fixed_outbounds"
  by (simp add: generateOutbounds_def convert_nodes_acc)

lemma generateOutbounds_drop:
  "\<not> supported parse bad \<Longrightarrow>
   generateOutbounds parse (xs @ bad # ys) options = generateOutbounds parse (xs @ ys) options"
  by (simp add: generateOutbounds_eq)

lemma example_texts:
  "vless_tls_text \<noteq> []" "vmess_tls_text \<noteq> []" "hysteria2_text \<noteq> []"
  "null_text \<noteq> []" "array_text \<noteq> []"
  "vmess_tls_text \<noteq> vless_tls_text" "hysteria2_text \<noteq> vless_tls_text"
  "hysteria2_text \<noteq> vmess_tls_text"
  "vless_tls_text \<noteq> null_text" "vmess_tls_text \<noteq> null_text" "hysteria2_text \<noteq> null_text"
  "array_text \<noteq> null_text" "array_text \<noteq> vless_tls_text" "array_text \<noteq> vmess_tls_text"
  "array_text \<noteq> hysteria2_text"
  by (simp_all add: vless_tls_text_def vmess_tls_text_def hysteria2_text_def null_text_def
      array_text_def dq_def)

lemma example_payloads:
  "payload_of example_parse (example_node name type vless_tls_text) =
     Some [(''type'', JStr ''vless''), (''server'', JStr ''example.com''), (''tls'', JBool True)]"
  "payload_of example_parse (example_node name type vmess_tls_text) =
     Some [(''type'', JStr ''vmess''), (''server'', JStr ''example.com''), (''tls'', JBool True)]"
  "payload_of example_parse (example_node name type hysteria2_text) =
     Some [(''type'', JStr ''hysteria2''), (''server'', JStr ''example.com'')]"
  "payload_of example_parse (example_node name type null_text) = Some []"
  "payload_of example_parse (example_node name type array_text) = None"
  "payload_of example_parse (example_node name type []) = None"
  by (simp_all add: payload_of_def example_parse_def example_node_def example_texts)

lemma lower_literals:
  "ToLower ''vless'' = ''vless''" "ToLower ''vmess'' = ''vmess''" "ToLower ''hysteria2'' = ''hysteria2''"
  "ToLower ''wireguard'' = ''wireguard''" "ToLower [] = []"
  "ToLower kelvin_socks = ''socks''"
  by (simp_all add: ToLower.simps kelvin_socks_def kelvin_sign_def capital_I_with_dot_def lower_char_def)

lemma example_node_sel:
  "node_Name (example_node name type config) = name"
  "node_Type (example_node name type config) = type"
  "node_Config (example_node name type config) = config"
  by (simp_all add: example_node_def)

subsection \<open>TLS settings\<close>

text \<open>
  C3, as stated, fails: a node whose payload has type \<open>vless\<close> and the TLS flag set
  to true is translated to an outbound with no TLS settings at all, so its server name is
  not the server host.
\<close>

theorem tls_flag_ignored_for_vless:
  "payload_of example_parse (example_node ''a'' ''vless'' vless_tls_text) =
     Some [(''type'', JStr ''vless''), (''server'', JStr ''example.com''), (''tls'', JBool True)] \<and>
   map_option TLS (convertProxyNode example_parse (example_node ''a'' ''vless'' vless_tls_text)) = Some None"
  by (simp add: example_payloads convertProxyNode_payload convertFromConfig_def assert_string_def
        lower_literals set_port_def assert_float64_def Let_def example_node_sel
        zero_SingboxOutbound_def)

text \<open>
  C3, amended. For every node whose payload decodes into a map, has type \<open>vmess\<close> or \<open>trojan\<close> (in any
  letter case) and carries the TLS flag set to true: the node translates to an outbound
  with TLS enabled, whose server is the payload's server host; when the payload has no
  \<open>sni\<close> or an empty one, the TLS server name is that server host; and the TLS insecure
  field is true exactly when the payload sets \<open>skip-cert-verify\<close> to the boolean true.
\<close>

theorem tls_defaulting:
  assumes "payload_of parse node = Some config"
    and "payload_type config = ''vmess'' \<or> payload_type config = ''trojan''"
    and "map_of config ''tls'' = Some (JBool True)"
  shows "\<exists>outbound tls.
           convertProxyNode parse node = Some outbound \<and> TLS outbound = Some tls \<and> Enabled tls \<and>
           Server outbound = fst (assert_string (map_of config ''server'')) \<and>
           (map_of config ''sni'' = None \<or> map_of config ''sni'' = Some (JStr []) \<longrightarrow>
              ServerName tls = Server outbound) \<and>
           (Insecure tls \<longleftrightarrow> map_of config ''skip-cert-verify'' = Some (JBool True))"
proof -
  have sni: "map_of config ''sni'' = None \<or> map_of config ''sni'' = Some (JStr []) \<Longrightarrow>
      getStringOr config ''sni'' d = d" for d
    by (auto simp add: getStringOr_def assert_string_def)
  have skip: "getBool config ''skip-cert-verify'' \<longleftrightarrow> map_of config ''skip-cert-verify'' = Some (JBool True)"
    by (simp add: getBool_def assert_bool_def split: option.split json.split)
  have srv: "Server (set_port config ob) = Server ob" for ob
    by (simp add: set_port_def split: prod.split)
  from assms(2) show ?thesis
  proof
    assume t: "payload_type config = ''vmess''"
    show ?thesis
      using assms(1,3) t sni skip
      by (simp add: convertProxyNode_payload convertFromConfig_def payload_type_def Let_def srv
          assert_bool_def split: prod.split)
  next
    assume t: "payload_type config = ''trojan''"
    show ?thesis
      using assms(1,3) t sni skip
      by (simp add: convertProxyNode_payload convertFromConfig_def payload_type_def Let_def srv)
  qed
qed

theorem tls_defaulting_witness:
  "map_option TLS (convertProxyNode example_parse (example_node ''a'' ''vmess'' vmess_tls_text)) =
     Some (Some \<lparr>Enabled = True, ServerName = ''example.com'', Insecure = False, ALPN = []\<rparr>)"
proof -
  let ?config = "[(''type'', JStr ''vmess''), (''server'', JStr ''example.com''), (''tls'', JBool True)]"
  have h1: "payload_of example_parse (example_node ''a'' ''vmess'' vmess_tls_text) = Some ?config"
    by (rule example_payloads)
  have h2: "payload_type ?config = ''vmess'' \<or> payload_type ?config = ''trojan''"
    by (simp add: payload_type_def assert_string_def lower_literals)
  have h3: "map_of ?config ''tls'' = Some (JBool True)"
    by simp
  from tls_defaulting [OF h1 h2 h3] obtain outbound tls where
    o: "convertProxyNode example_parse (example_node ''a'' ''vmess'' vmess_tls_text) = Some outbound"
    and t: "TLS outbound = Some tls" "Enabled tls"
      "Server outbound = fst (assert_string (map_of ?config ''server''))"
      "map_of ?config ''sni'' = None \<or> map_of ?config ''sni'' = Some (JStr []) \<longrightarrow>
         ServerName tls = Server outbound"
      "Insecure tls \<longleftrightarrow> map_of ?config ''skip-cert-verify'' = Some (JBool True)"
    by blast
  have alpn: "ALPN tls = []"
    using o t(1) h1
    by (auto simp add: convertProxyNode_payload convertFromConfig_def assert_string_def assert_bool_def
        assert_float64_def lower_literals set_port_def Let_def)
  have "tls = \<lparr>Enabled = True, ServerName = ''example.com'', Insecure = False, ALPN = []\<rparr>"
    using t alpn by (simp add: assert_string_def)
  with o t(1) show ?thesis by simp
qed

subsection \<open>The outbound list\<close>

text \<open>
  C6, as stated, fails in both directions: a node with the recognized top-level tag
  \<open>vmess\<close> whose payload names \<open>hysteria2\<close> gets no outbound entry (only the three fixed
  entries are produced), and a node with the unrecognized top-level tag \<open>wireguard\<close> whose
  payload names \<open>vless\<close> does get one.
\<close>

theorem recognized_tag_not_decisive:
  "tag_recognized (example_node ''a'' ''vmess'' hysteria2_text) \<and>
   generateOutbounds example_parse [example_node ''a'' ''vmess'' hysteria2_text] example_options
     = fixed_outbounds \<and>
   \<not> tag_recognized (example_node ''b'' ''wireguard'' vless_tls_text) \<and>
   map Tag (generateOutbounds example_parse [example_node ''b'' ''wireguard'' vless_tls_text] example_options)
     = [''b'', ''proxy'', ''auto'', ''direct'', ''block'', ''dns-out'']"
proof -
  have a: "\<not> supported example_parse (example_node ''a'' ''vmess'' hysteria2_text)"
    by (simp add: supported_def example_payloads payload_type_def assert_string_def lower_literals)
  have b: "supported example_parse (example_node ''b'' ''wireguard'' vless_tls_text)"
    by (simp add: supported_def example_payloads payload_type_def assert_string_def lower_literals)
  have t: "Tag (the (convertProxyNode example_parse (example_node ''b'' ''wireguard'' vless_tls_text))) = ''b''"
    by (simp add: example_payloads convertProxyNode_payload convertFromConfig_def assert_string_def
        lower_literals set_port_def assert_float64_def Let_def example_node_sel)
  show ?thesis
    using a b t
    by (simp add: generateOutbounds_eq tag_recognized_def example_node_sel lower_literals
        selector_outbounds_def fixed_outbounds_def)
qed

text \<open>
  C6, amended. For every list of nodes, the outbound list is: one entry for exactly the
  supported nodes, in input order, each tagged with its node's name; then the selector and
  url-test entries over those names (when there is at least one); then the fixed direct,
  block and dns entries. A node is supported when the translator returns an outbound for
  it: by the type in its payload (ss, vmess, trojan, vless) when the payload is not empty
  and \<open>json.Unmarshal\<close> decodes it into a map (it is a JSON object, or \<open>null\<close>), by its
  top-level protocol tag (ss, shadowsocks, vmess, vless, trojan, hysteria2, hy2, socks,
  socks5, http) otherwise; both are compared after \<open>strings.ToLower\<close>. A node that is not
  supported is left out, and the list is the same as if the node had not been in the
  input.
\<close>

theorem generateOutbounds_supported:
  "generateOutbounds parse nodes options =
     map (\<lambda>n. the (convertProxyNode parse n)) (filter (supported parse) nodes)
     @ selector_outbounds (map node_Name (filter (supported parse) nodes))
     @ fixed_outbounds \<and>
   (\<forall>node. supported parse node \<longleftrightarrow> convertProxyNode parse node \<noteq> None) \<and>
   (\<forall>node \<in> set nodes. supported parse node \<longrightarrow>
      Tag (the (convertProxyNode parse node)) = node_Name node) \<and>
   (\<not> supported parse bad \<longrightarrow>
      generateOutbounds parse (xs @ bad # ys) options = generateOutbounds parse (xs @ ys) options)"
proof -
  have tag: "Tag (the (convertProxyNode parse node)) = node_Name node" if "supported parse node" for node
  proof (cases "payload_of parse node")
    case None
    with that show ?thesis
      by (auto simp add: convertProxyNode_def payload_of_def supported_def tag_recognized_def Let_def)
  next
    case (Some config)
    have p: "Tag (set_port config ob) = Tag ob" for ob
      by (simp add: set_port_def split: prod.split)
    from Some that show ?thesis
      by (auto simp add: convertProxyNode_payload supported_def convertFromConfig_def payload_type_def
          Let_def p split: prod.split)
  qed
  show ?thesis
    using convertProxyNode_Some_iff [of parse] tag
    by (simp add: generateOutbounds_eq)
qed

theorem generateOutbounds_supported_witness:
  "\<not> supported example_parse (example_node ''a'' ''vmess'' hysteria2_text) \<and>
   supported example_parse (example_node ''b'' ''wireguard'' vless_tls_text) \<and>
   supported example_parse (example_node ''c'' ''vmess'' array_text) \<and>
   \<not> supported example_parse (example_node ''d'' ''vmess'' null_text) \<and>
   supported example_parse (example_node ''e'' kelvin_socks []) \<and>
   generateOutbounds example_parse
       [example_node ''a'' ''vmess'' hysteria2_text, example_node ''b'' ''wireguard'' vless_tls_text]
       example_options =
     generateOutbounds example_parse [example_node ''b'' ''wireguard'' vless_tls_text] example_options \<and>
   Tag (the (convertProxyNode example_parse (example_node ''b'' ''wireguard'' vless_tls_text))) = ''b'' \<and>
   map_option Type (convertProxyNode example_parse (example_node ''c'' ''vmess'' array_text))
     = Some ''vmess'' \<and>
   map_option Type (convertProxyNode example_parse (example_node ''e'' kelvin_socks []))
     = Some ''socks''"
proof -
  have a: "\<not> supported example_parse (example_node ''a'' ''vmess'' hysteria2_text)"
    by (simp add: supported_def example_payloads payload_type_def assert_string_def lower_literals)
  have b: "supported example_parse (example_node ''b'' ''wireguard'' vless_tls_text)"
    by (simp add: supported_def example_payloads payload_type_def assert_string_def lower_literals)
  have c: "supported example_parse (example_node ''c'' ''vmess'' array_text)"
    by (simp add: supported_def example_payloads tag_recognized_def example_node_sel lower_literals)
  have d: "\<not> supported example_parse (example_node ''d'' ''vmess'' null_text)"
    by (simp add: supported_def example_payloads payload_type_def assert_string_def lower_literals)
  have e: "supported example_parse (example_node ''e'' kelvin_socks [])"
    by (simp add: supported_def example_payloads tag_recognized_def example_node_sel lower_literals)
  have tc: "map_option Type (convertProxyNode example_parse (example_node ''c'' ''vmess'' array_text))
     = Some ''vmess''"
    using example_payloads(5) [of "''c''" "''vmess''"]
    by (simp add: convertProxyNode_def payload_of_def Let_def example_node_sel lower_literals)
  have te: "map_option Type (convertProxyNode example_parse (example_node ''e'' kelvin_socks []))
     = Some ''socks''"
    by (simp add: convertProxyNode_def Let_def example_node_sel lower_literals)
  from generateOutbounds_supported [of example_parse
      "[example_node ''b'' ''wireguard'' vless_tls_text]" example_options
      "example_node ''a'' ''vmess'' hysteria2_text" "[]"
      "[example_node ''b'' ''wireguard'' vless_tls_text]"] a b c d e tc te
  show ?thesis by (simp add: example_node_sel)
qed

subsection \<open>Payload before top-level fields\<close>

text \<open>
  C9, as stated, fails, in two ways. Two nodes with the same payload, which decodes, and
  different names translate to different outbounds, so not every top-level field is
  ignored. And a node whose payload is the JSON array \<open>[1,2]\<close>, which \<open>json.Unmarshal\<close>
  refuses for a map, is translated from its top-level protocol tag, server and port.
\<close>

theorem payload_path_uses_name:
  "node_Config (example_node ''a'' ''vmess'' vmess_tls_text) =
     node_Config (example_node ''b'' ''vmess'' vmess_tls_text) \<and>
   example_parse (node_Config (example_node ''a'' ''vmess'' vmess_tls_text)) \<noteq> None \<and>
   convertProxyNode example_parse (example_node ''a'' ''vmess'' vmess_tls_text) \<noteq>
     convertProxyNode example_parse (example_node ''b'' ''vmess'' vmess_tls_text) \<and>
   example_parse array_text = None \<and>
   convertProxyNode example_parse (example_node ''a'' ''vmess'' array_text) =
     Some (zero_SingboxOutbound\<lparr>Tag := ''a'', Server := ''203.0.113.7'', ServerPort := 443,
                                 Type := ''vmess''\<rparr>)"
proof -
  have "map_option Tag (convertProxyNode example_parse (example_node ''a'' ''vmess'' vmess_tls_text)) = Some ''a''"
    by (simp add: example_payloads convertProxyNode_payload convertFromConfig_def assert_string_def
        lower_literals set_port_def assert_float64_def assert_bool_def Let_def example_node_sel)
  moreover
  have "map_option Tag (convertProxyNode example_parse (example_node ''b'' ''vmess'' vmess_tls_text)) = Some ''b''"
    by (simp add: example_payloads convertProxyNode_payload convertFromConfig_def assert_string_def
        lower_literals set_port_def assert_float64_def assert_bool_def Let_def example_node_sel)
  ultimately have n: "convertProxyNode example_parse (example_node ''a'' ''vmess'' vmess_tls_text) \<noteq>
     convertProxyNode example_parse (example_node ''b'' ''vmess'' vmess_tls_text)"
    by auto
  have p: "example_parse array_text = None"
    by (simp add: example_parse_def example_texts)
  have t: "convertProxyNode example_parse (example_node ''a'' ''vmess'' array_text) =
     Some (zero_SingboxOutbound\<lparr>Tag := ''a'', Server := ''203.0.113.7'', ServerPort := 443,
                                 Type := ''vmess''\<rparr>)"
    using p by (simp add: convertProxyNode_def Let_def example_node_def lower_literals)
  from n p t show ?thesis
    by (simp add: example_node_sel example_parse_def example_texts)
qed

text \<open>
  C9, amended. If a node's payload is not empty and \<open>json.Unmarshal\<close> decodes it into a map
  (the payload is a JSON object, or \<open>null\<close>), the translation is made from that map and
  the node's name alone: changing the node's top-level protocol tag, server and port
  changes nothing. When the payload's type is missing or not one of ss, vmess, trojan,
  vless, the node translates to nothing and the outbound list is the same as without the
  node, whatever its top-level protocol tag.
\<close>

theorem payload_decides:
  assumes "payload_of parse node = Some config"
  shows "convertProxyNode parse node = convertFromConfig (node_Name node) config \<and>
         convertProxyNode parse (node\<lparr>node_Type := type, node_Server := server, node_Port := port\<rparr>)
           = convertProxyNode parse node \<and>
         (payload_type config \<notin> set [''ss'', ''vmess'', ''trojan'', ''vless''] \<longrightarrow>
            convertProxyNode parse node = None \<and>
            generateOutbounds parse (xs @ node # ys) options = generateOutbounds parse (xs @ ys) options)"
proof -
  have same: "payload_of parse (node\<lparr>node_Type := type, node_Server := server, node_Port := port\<rparr>) = Some config"
    using assms by (auto simp add: payload_of_def split: if_splits)
  have none: "convertProxyNode parse node = None \<and>
      generateOutbounds parse (xs @ node # ys) options = generateOutbounds parse (xs @ ys) options"
    if "payload_type config \<notin> set [''ss'', ''vmess'', ''trojan'', ''vless'']"
  proof -
    from that assms have n: "\<not> supported parse node"
      by (simp add: supported_def)
    then show ?thesis
      using convertProxyNode_Some_iff [of parse node] generateOutbounds_drop [of parse node xs ys options]
      by simp
  qed
  show ?thesis
    using convertProxyNode_payload [OF assms] convertProxyNode_payload [OF same] none
    by simp
qed

theorem payload_decides_witness:
  "tag_recognized (example_node ''a'' ''vmess'' hysteria2_text) \<and>
   convertProxyNode example_parse (example_node ''a'' ''vmess'' hysteria2_text) = None \<and>
   generateOutbounds example_parse [example_node ''a'' ''vmess'' hysteria2_text] example_options
     = generateOutbounds example_parse [] example_options \<and>
   convertProxyNode example_parse (example_node ''d'' ''vmess'' null_text) = None"
proof -
  let ?config = "[(''type'', JStr ''hysteria2''), (''server'', JStr ''example.com'')]"
  have h: "payload_of example_parse (example_node ''a'' ''vmess'' hysteria2_text) = Some ?config"
    by (rule example_payloads)
  have t: "payload_type ?config \<notin> set [''ss'', ''vmess'', ''trojan'', ''vless'']"
    by (simp add: payload_type_def assert_string_def lower_literals)
  have r: "tag_recognized (example_node ''a'' ''vmess'' hysteria2_text)"
    by (simp add: tag_recognized_def example_node_sel lower_literals)
  have hn: "payload_of example_parse (example_node ''d'' ''vmess'' null_text) = Some []"
    by (rule example_payloads)
  have tn: "payload_type [] \<notin> set [''ss'', ''vmess'', ''trojan'', ''vless'']"
    by (simp add: payload_type_def assert_string_def lower_literals)
  from payload_decides [OF h, where xs = "[]" and ys = "[]" and options = example_options
      and type = "''vmess''" and server = "''203.0.113.7''" and port = 443] t r
       payload_decides [OF hn, where xs = "[]" and ys = "[]" and options = example_options
      and type = "''vmess''" and server = "''203.0.113.7''" and port = 443] tn
  show ?thesis by auto
qed

subsection \<open>Log retrieval\<close>

text \<open>\<open>Contains\<close> is the substring relation.\<close>

lemma has_prefix_iff: "has_prefix s p \<longleftrightarrow> (\<exists>post. s = p @ post)"
  by (induction s p rule: has_prefix.induct) auto

lemma Contains_iff: "Contains s sub \<longleftrightarrow> (\<exists>pre post. s = pre @ sub @ post)"
proof (induction s)
  case Nil
  then show ?case by auto
next
  case (Cons c cs)
  have "(\<exists>pre post. c # cs = pre @ sub @ post) \<longleftrightarrow>
        (\<exists>post. c # cs = sub @ post) \<or> (\<exists>pre post. cs = pre @ sub @ post)"
  proof
    assume "\<exists>pre post. c # cs = pre @ sub @ post"
    then obtain pre post where e: "c # cs = pre @ sub @ post" by blast
    show "(\<exists>post. c # cs = sub @ post) \<or> (\<exists>pre post. cs = pre @ sub @ post)"
    proof (cases pre)
      case Nil
      with e show ?thesis by auto
    next
      case (Cons a pre')
      with e have "cs = pre' @ sub @ post" by simp
      then show ?thesis by blast
    qed
  next
    assume "(\<exists>post. c # cs = sub @ post) \<or> (\<exists>pre post. cs = pre @ sub @ post)"
    then show "\<exists>pre post. c # cs = pre @ sub @ post"
    proof
      assume "\<exists>post. c # cs = sub @ post"
      then obtain post where "c # cs = [] @ sub @ post" by auto
      then show ?thesis by blast
    next
      assume "\<exists>pre post. cs = pre @ sub @ post"
      then obtain pre post where "c # cs = (c # pre) @ sub @ post" by auto
      then show ?thesis by blast
    qed
  qed
  with Cons show ?case by (simp add: has_prefix_iff)
qed

lemma filter_logs_acc:
  "filter_logs level logs filteredLogs = filteredLogs @ filter (level_appends level) logs"
  by (induction logs arbitrary: filteredLogs) simp_all

lemma level_appends_switch:
  "level_appends ''error'' = (\<lambda>line. Contains line ''ERR'' \<or> Contains line ''FATA'' \<or> Contains line ''error'')"
  "level_appends ''warn'' = (\<lambda>line. Contains line ''WARN'' \<or> Contains line ''warning'')"
  "level_appends ''info'' = (\<lambda>line. Contains line ''INFO'' \<or> Contains line ''info'')"
  "level \<noteq> ''error'' \<Longrightarrow> level \<noteq> ''warn'' \<Longrightarrow> level \<noteq> ''info'' \<Longrightarrow>
     level_appends level = (\<lambda>line. True)"
  by (rule ext, simp add: level_appends_def)+

text \<open>
  C8. Log retrieval with a limit that parses to a positive number \<open>n\<close> and a level answers
  200 with, from the most recent \<open>n\<close> captured lines and in their order: for level
  \<open>error\<close> exactly the lines containing \<open>ERR\<close>, \<open>FATA\<close> or \<open>error\<close>; for \<open>warn\<close> those
  containing \<open>WARN\<close> or \<open>warning\<close>; for \<open>info\<close> those containing \<open>INFO\<close> or \<open>info\<close>; for
  any other level all of them.
\<close>

theorem GetLogs_filters_recent:
  assumes "Atoi limitStr = Some n" and "0 < n"
  shows "\<exists>data. GetLogs captured (Some limitStr) (Some level) = JSON_data 200 0 ''success'' data \<and>
     (level = ''error'' \<longrightarrow>
        data = filter (\<lambda>line. Contains line ''ERR'' \<or> Contains line ''FATA'' \<or> Contains line ''error'')
                 (service_GetLogs captured n)) \<and>
     (level = ''warn'' \<longrightarrow>
        data = filter (\<lambda>line. Contains line ''WARN'' \<or> Contains line ''warning'')
                 (service_GetLogs captured n)) \<and>
     (level = ''info'' \<longrightarrow>
        data = filter (\<lambda>line. Contains line ''INFO'' \<or> Contains line ''info'')
                 (service_GetLogs captured n)) \<and>
     (level \<noteq> ''error'' \<and> level \<noteq> ''warn'' \<and> level \<noteq> ''info'' \<longrightarrow>
        data = service_GetLogs captured n)"
  using assms
  by (simp add: GetLogs_def DefaultQuery_def filter_logs_acc level_appends_switch)

theorem GetLogs_filters_recent_witness:
  "GetLogs example_log (Some ''3'') (Some ''error'') = JSON_data 200 0 ''success'' [''ERR failed''] \<and>
   GetLogs example_log (Some ''3'') (Some ''warn'') = JSON_data 200 0 ''success'' [''WARN slow''] \<and>
   GetLogs example_log (Some ''3'') (Some ''info'') = JSON_data 200 0 ''success'' [''info done''] \<and>
   GetLogs example_log (Some ''3'') (Some ''all'') =
     JSON_data 200 0 ''success'' [''WARN slow'', ''ERR failed'', ''info done'']"
proof -
  have a: "Atoi ''3'' = Some 3"
    by (simp add: Atoi_def is_digit_def digits_value_def)
  have p: "(0::int) < 3" by simp
  have r: "service_GetLogs example_log 3 = [''WARN slow'', ''ERR failed'', ''info done'']"
    by (simp add: service_GetLogs_def example_log_def)
  from GetLogs_filters_recent [OF a p, of example_log "''error''"]
       GetLogs_filters_recent [OF a p, of example_log "''warn''"]
       GetLogs_filters_recent [OF a p, of example_log "''info''"]
       GetLogs_filters_recent [OF a p, of example_log "''all''"]
  show ?thesis
    unfolding r by auto
qed

subsection \<open>Bridge to the control API\<close>

text \<open>
  What the four bridged calls answer when their request can be built. The request goes to
  the configured control address, or to \<open>127.0.0.1:9090\<close> when none is configured. If the
  transport fails, the answer is status 503 with code 1 and, as message, the words
  \<open>Mihomo API\<close>, the three Chinese characters for "not available", a colon and the error
  text. If the engine answers, the answer carries the engine's status code and the bytes
  read from its body.
\<close>

lemma bridge_answers:
  assumes "request_err e (call_url e call) = None"
  shows "(\<forall>err. transport e (call_method call) (call_url e call) (call_body call) = TransportErr err \<longrightarrow>
            bridge e call = Responded (JSON_message 503 1
              (''Mihomo API '' @ [CHR 0xE4, CHR 0xB8, CHR 0x8D, CHR 0xE5, CHR 0x8F, CHR 0xAF,
                                  CHR 0xE7, CHR 0x94, CHR 0xA8] @ '': '' @ err))) \<and>
         (\<forall>status body rerr.
            transport e (call_method call) (call_url e call) (call_body call) = Upstream status body rerr \<longrightarrow>
            bridge e call = Responded (Data status ''application/json'' body)) \<and>
         (ExternalController e = [] \<longrightarrow> call_url e call = ''http://127.0.0.1:9090'' @ call_path call) \<and>
         (ExternalController e \<noteq> [] \<longrightarrow> call_url e call = ''http://'' @ ExternalController e @ call_path call)"
proof (cases call)
  case GetProxies
  with assms show ?thesis
    by (simp add: ProxyMihomoGetProxies_def http_Get_url_def call_url_def resolved_addr_def
        unavailable_prefix_def)
next
  case (GetProxy name)
  with assms show ?thesis
    by (simp add: ProxyMihomoGetProxy_def http_Get_url_def call_url_def resolved_addr_def
        unavailable_prefix_def)
next
  case (SelectProxy name body)
  with assms show ?thesis
    by (simp add: ProxyMihomoSelectProxy_def call_url_def resolved_addr_def unavailable_prefix_def)
next
  case (TestDelay name url_q timeout_q)
  with assms show ?thesis
    by (simp add: ProxyMihomoTestDelay_def http_Get_url_def call_url_def resolved_addr_def
        unavailable_prefix_def)
qed

lemma bridge_answers_examples:
  "bridge example_bridge_env GetProxies = Responded (Data 200 ''application/json'' ''{}'') \<and>
   bridge example_bridge_env (SelectProxy ''GLOBAL'' ''{}'') =
     Responded (JSON_message 503 1
       (''Mihomo API '' @ [CHR 0xE4, CHR 0xB8, CHR 0x8D, CHR 0xE5, CHR 0x8F, CHR 0xAF,
                           CHR 0xE7, CHR 0x94, CHR 0xA8] @ '': connection refused'')) \<and>
   call_url example_bridge_env_remote (TestDelay ''GLOBAL'' [] []) =
     ''http://10.0.0.2:9999/proxies/GLOBAL/delay?url=http://www.gstatic.com/generate_204&timeout=5000'' \<and>
   bridge example_bridge_env_remote (TestDelay ''GLOBAL'' [] []) =
     Responded (JSON_message 503 1
       (''Mihomo API '' @ [CHR 0xE4, CHR 0xB8, CHR 0x8D, CHR 0xE5, CHR 0x8F, CHR 0xAF,
                           CHR 0xE7, CHR 0x94, CHR 0xA8] @ '': connection refused''))"
proof -
  have u1: "call_url example_bridge_env GetProxies = ''http://127.0.0.1:9090/proxies''"
    by (simp add: call_url_def resolved_addr_def example_bridge_env_def)
  have u2: "call_url example_bridge_env (SelectProxy ''GLOBAL'' ''{}'') = ''http://127.0.0.1:9090/proxies/GLOBAL''"
    by (simp add: call_url_def resolved_addr_def example_bridge_env_def)
  have h1: "request_err example_bridge_env (call_url example_bridge_env GetProxies) = None"
    by (simp add: example_bridge_env_def)
  have h2: "request_err example_bridge_env (call_url example_bridge_env (SelectProxy ''GLOBAL'' ''{}'')) = None"
    by (simp add: example_bridge_env_def)
  have h3: "request_err example_bridge_env_remote
      (call_url example_bridge_env_remote (TestDelay ''GLOBAL'' [] [])) = None"
    by (simp add: example_bridge_env_remote_def example_bridge_env_def)
  have e3: "ExternalController example_bridge_env_remote \<noteq> []"
    by (simp add: example_bridge_env_remote_def)
  have t1: "transport example_bridge_env (call_method GetProxies) (call_url example_bridge_env GetProxies)
      (call_body GetProxies) = Upstream 200 ''{}'' None"
    unfolding u1 by (simp add: example_bridge_env_def)
  have t2: "transport example_bridge_env (call_method (SelectProxy ''GLOBAL'' ''{}''))
      (call_url example_bridge_env (SelectProxy ''GLOBAL'' ''{}'')) (call_body (SelectProxy ''GLOBAL'' ''{}''))
       = TransportErr ''connection refused''"
    unfolding u2 by (simp add: example_bridge_env_def)
  have t3: "transport example_bridge_env_remote (call_method (TestDelay ''GLOBAL'' [] []))
      (call_url example_bridge_env_remote (TestDelay ''GLOBAL'' [] [])) (call_body (TestDelay ''GLOBAL'' [] []))
       = TransportErr ''connection refused''"
    by (simp add: example_bridge_env_remote_def example_bridge_env_def call_url_def resolved_addr_def)
  from bridge_answers [OF h3] e3
  have u3: "call_url example_bridge_env_remote (TestDelay ''GLOBAL'' [] []) =
     ''http://10.0.0.2:9999/proxies/GLOBAL/delay?url=http://www.gstatic.com/generate_204&timeout=5000''"
    by (simp add: example_bridge_env_remote_def)
  from bridge_answers [OF h1] t1 bridge_answers [OF h2] t2 bridge_answers [OF h3] t3 u3
  show ?thesis by auto
qed

text \<open>
  C7. The call that selects a node in the proxy group named \<open>100%\<close>, with the control API
  up: the URL of the request cannot be parsed, \<open>ProxyMihomoSelectProxy\<close> has dropped the
  error of \<open>http.NewRequest\<close> and sets a header on the \<open>nil\<close> request, so the handler
  panics and gives no answer of its own, neither the 503 nor the engine's. The read of the
  same group, through \<open>http.Get\<close>, answers 503 with the service-unavailable message. The
  claim asks of every bridged call that it answers 503 when the engine cannot be reached
  and with the engine's answer otherwise.
\<close>

theorem SelectProxy_drops_request_error:
  "call_url example_bridge_env_escape (SelectProxy ''100%'' ''{}'') = percent_url \<and>
   request_err example_bridge_env_escape percent_url = Some escape_error \<and>
   bridge example_bridge_env_escape (SelectProxy ''100%'' ''{}'') = NilPanic \<and>
   bridge example_bridge_env_escape (GetProxy ''100%'') =
     Responded (JSON_message 503 1
       (''Mihomo API '' @ [CHR 0xE4, CHR 0xB8, CHR 0x8D, CHR 0xE5, CHR 0x8F, CHR 0xAF,
                           CHR 0xE7, CHR 0x94, CHR 0xA8] @ '': '' @ escape_error)) \<and>
   bridge example_bridge_env_escape (SelectProxy ''GLOBAL'' ''{}'') =
     Responded (Data 204 ''application/json'' [])"
  by (simp add: ProxyMihomoSelectProxy_def ProxyMihomoGetProxy_def http_Get_url_def call_url_def
      resolved_addr_def example_bridge_env_escape_def percent_url_def unavailable_prefix_def)

end
